theory Spec2Isabelle
  imports Main "HOL-Library.Word"
begin

unbundle bit_operations_syntax

section \<open>NVMe multipath (drivers/nvme/host/multipath.c)\<close>

subsection \<open>Constants taken from the headers\<close>

text \<open>
  The file includes \<^verbatim>\<open>nvme.h\<close> and, through it, the block layer's headers. Their
  enumerators and macros are not part of the file, so the embedding takes every value it
  needs as a field of one record of header constants. All functions below receive that
  record as their first argument \<open>K\<close>, and every theorem holds for each value of it.

  The status codes are C enumerators (type \<^verbatim>\<open>int\<close>); the flag words are the low 32 bits
  of the flag macros, since \<^verbatim>\<open>cmd_flags\<close> and \<^verbatim>\<open>bi_opf\<close> are \<^verbatim>\<open>unsigned int\<close>.
\<close>

record nvme_h =
  NVME_SC_INVALID_OPCODE :: int
  NVME_SC_INVALID_FIELD :: int
  NVME_SC_INVALID_NS :: int
  NVME_SC_LBA_RANGE :: int
  NVME_SC_CAP_EXCEEDED :: int
  NVME_SC_RESERVATION_CONFLICT :: int
  NVME_SC_BAD_ATTRIBUTES :: int
  NVME_SC_INVALID_PI :: int
  NVME_SC_READ_ONLY :: int
  NVME_SC_ONCS_NOT_SUPPORTED :: int
  NVME_SC_WRITE_FAULT :: int
  NVME_SC_READ_ERROR :: int
  NVME_SC_GUARD_CHECK :: int
  NVME_SC_APPTAG_CHECK :: int
  NVME_SC_REFTAG_CHECK :: int
  NVME_SC_COMPARE_FAILED :: int
  NVME_SC_ACCESS_DENIED :: int
  NVME_SC_UNWRITTEN_BLOCK :: int
  nvme_fabrics_command :: "8 word"
  REQ_NVME_MPATH :: "32 word"
  BLK_STS_IOERR :: "8 word"
  BLK_QC_T_NONE :: "32 word"
  ENOMEM :: int
  NVME_CTRL_VWC_PRESENT :: "8 word"
  GENHD_FL_EXT_DEVT :: int
  QUEUE_FLAG_NONROT :: nat

text \<open>
  A concrete instance, at which the theorems are evaluated: the status codes have the
  values of the NVM Express specification (status code type in bits 8 to 10, status code
  in bits 0 to 7), the other fields have values in the style of the Linux headers.
\<close>

definition linux_h :: nvme_h where
  "linux_h = \<lparr>
     NVME_SC_INVALID_OPCODE = 0x1,
     NVME_SC_INVALID_FIELD = 0x2,
     NVME_SC_INVALID_NS = 0xb,
     NVME_SC_LBA_RANGE = 0x80,
     NVME_SC_CAP_EXCEEDED = 0x81,
     NVME_SC_RESERVATION_CONFLICT = 0x83,
     NVME_SC_BAD_ATTRIBUTES = 0x180,
     NVME_SC_INVALID_PI = 0x181,
     NVME_SC_READ_ONLY = 0x182,
     NVME_SC_ONCS_NOT_SUPPORTED = 0x183,
     NVME_SC_WRITE_FAULT = 0x280,
     NVME_SC_READ_ERROR = 0x281,
     NVME_SC_GUARD_CHECK = 0x282,
     NVME_SC_APPTAG_CHECK = 0x283,
     NVME_SC_REFTAG_CHECK = 0x284,
     NVME_SC_COMPARE_FAILED = 0x285,
     NVME_SC_ACCESS_DENIED = 0x286,
     NVME_SC_UNWRITTEN_BLOCK = 0x287,
     nvme_fabrics_command = 0x7f,
     REQ_NVME_MPATH = 0x800000,
     BLK_STS_IOERR = 10,
     BLK_QC_T_NONE = 0xffffffff,
     ENOMEM = 12,
     NVME_CTRL_VWC_PRESENT = 1,
     GENHD_FL_EXT_DEVT = 0x40,
     QUEUE_FLAG_NONROT = 6 \<rparr>"

subsection \<open>Data model\<close>

type_synonym ns_ptr = nat
type_synonym ctrl_ptr = nat
type_synonym disk_ptr = nat
type_synonym queue_ptr = nat

text \<open>
  A block I/O buffer (\<^verbatim>\<open>struct bio\<close>). \<open>bi_id\<close> stands for the address of the
  object: it is never written, and tells two buffers with equal fields apart. A chain
  of buffers linked through \<^verbatim>\<open>bi_next\<close> is a HOL list.
\<close>

record bio =
  bi_id :: nat
  bi_disk :: "disk_ptr option"
  bi_opf :: "32 word"
  bi_status :: "8 word"

text \<open>
  A request as the completion path sees it: the flag word, the NVMe completion status
  \<^verbatim>\<open>nvme_req(req)->status\<close> (a \<^verbatim>\<open>u16\<close>), the opcode of its command, the chain of
  buffers still attached (\<^verbatim>\<open>req->bio\<close>), and the namespace its queue belongs to
  (\<^verbatim>\<open>req->q->queuedata\<close>).
\<close>

record request =
  rq_id :: nat
  cmd_flags :: "32 word"
  status :: "16 word"
  opcode :: "8 word"
  rq_bios :: "bio list"
  rq_ns :: ns_ptr

subsection \<open>Failure classification: \<^verbatim>\<open>nvme_req_needs_failover\<close>\<close>

text \<open>
  The result is a pair: the value the C function returns, and whether the
  \<^verbatim>\<open>WARN_ON_ONCE\<close> of the I/O command set branch fires. The \<^verbatim>\<open>switch\<close> is on the
  \<^verbatim>\<open>int\<close> value of \<^verbatim>\<open>status & 0x7ff\<close>; its case labels are tried in the source's
  order.
\<close>

definition nvme_req_needs_failover :: "nvme_h \<Rightarrow> request \<Rightarrow> bool \<times> bool" where
  "nvme_req_needs_failover K req =
     (if cmd_flags req AND REQ_NVME_MPATH K = 0 then (False, False)
      else
        let sc = uint (status req AND 0x7ff) in
        if sc = NVME_SC_INVALID_OPCODE K \<or> sc = NVME_SC_INVALID_FIELD K
           \<or> sc = NVME_SC_INVALID_NS K \<or> sc = NVME_SC_LBA_RANGE K
           \<or> sc = NVME_SC_CAP_EXCEEDED K \<or> sc = NVME_SC_RESERVATION_CONFLICT K
        then (False, False)
        else if sc = NVME_SC_BAD_ATTRIBUTES K \<or> sc = NVME_SC_INVALID_PI K
           \<or> sc = NVME_SC_READ_ONLY K \<or> sc = NVME_SC_ONCS_NOT_SUPPORTED K
        then (False, opcode req = nvme_fabrics_command K)
        else if sc = NVME_SC_WRITE_FAULT K \<or> sc = NVME_SC_READ_ERROR K
           \<or> sc = NVME_SC_GUARD_CHECK K \<or> sc = NVME_SC_APPTAG_CHECK K
           \<or> sc = NVME_SC_REFTAG_CHECK K \<or> sc = NVME_SC_COMPARE_FAILED K
           \<or> sc = NVME_SC_ACCESS_DENIED K \<or> sc = NVME_SC_UNWRITTEN_BLOCK K
        then (False, False)
        else (True, False))"

text \<open>
  The classification table as the specification lists it: invalid opcode, invalid
  field, invalid namespace, out-of-range address, capacity exceeded, reservation
  conflict, bad attributes, invalid protection information, read-only media, command set
  unsupported, write fault, read error, the guard, application-tag and reference-tag
  check failures, compare failed, access denied, unwritten block.
\<close>

definition unretryable_codes :: "nvme_h \<Rightarrow> int list" where
  "unretryable_codes K =
     [NVME_SC_INVALID_OPCODE K, NVME_SC_INVALID_FIELD K, NVME_SC_INVALID_NS K,
      NVME_SC_LBA_RANGE K, NVME_SC_CAP_EXCEEDED K, NVME_SC_RESERVATION_CONFLICT K,
      NVME_SC_BAD_ATTRIBUTES K, NVME_SC_INVALID_PI K, NVME_SC_READ_ONLY K,
      NVME_SC_ONCS_NOT_SUPPORTED K,
      NVME_SC_WRITE_FAULT K, NVME_SC_READ_ERROR K,
      NVME_SC_GUARD_CHECK K, NVME_SC_APPTAG_CHECK K, NVME_SC_REFTAG_CHECK K,
      NVME_SC_COMPARE_FAILED K, NVME_SC_ACCESS_DENIED K, NVME_SC_UNWRITTEN_BLOCK K]"

text \<open>The multipath-routed tag of a flag word (\<^verbatim>\<open>flags & REQ_NVME_MPATH\<close>).\<close>

definition mpath_tagged :: "nvme_h \<Rightarrow> 32 word \<Rightarrow> bool" where
  "mpath_tagged K flags = (flags AND REQ_NVME_MPATH K \<noteq> 0)"

subsection \<open>Controllers, namespaces and the namespace head\<close>

text \<open>
  Modelled from the spec: the enumeration \<^verbatim>\<open>nvme_ctrl_state\<close> is declared in
  \<^verbatim>\<open>nvme.h\<close>; the specification lists the liveness states of a connection as NEW,
  CONNECTING, LIVE, RECONNECTING, DELETING, DEAD. The file only ever compares a state
  with \<^verbatim>\<open>NVME_CTRL_LIVE\<close>.
\<close>

datatype nvme_ctrl_state =
    NVME_CTRL_NEW
  | NVME_CTRL_CONNECTING
  | NVME_CTRL_LIVE
  | NVME_CTRL_RECONNECTING
  | NVME_CTRL_DELETING
  | NVME_CTRL_DEAD

record nvme_subsystem =
  cmic :: "8 word"
  subsys_instance :: int

record nvme_ctrl =
  state :: nvme_ctrl_state
  subsys :: nvme_subsystem
  vwc :: "8 word"

text \<open>
  A path (\<^verbatim>\<open>struct nvme_ns\<close>): the controller it goes through, its own disk and its
  own queue, all held as pointers. Every namespace of the model belongs to the one
  namespace head of the state below (\<^verbatim>\<open>ns->head\<close>).
\<close>

record nvme_ns =
  ns_ctrl :: ctrl_ptr
  ns_disk :: disk_ptr
  ns_queue :: queue_ptr

text \<open>Function pointers the file stores: a pointer is the name of its target.\<close>

datatype make_request_fn_t = FN_nvme_ns_head_make_request
datatype poll_fn_t = FN_nvme_ns_head_poll
datatype work_fn_t = FN_nvme_requeue_work
datatype fops_t = FN_nvme_ns_head_ops

record work_struct =
  work_func :: "work_fn_t option"
  work_pending :: bool

record request_queue =
  q_addr :: queue_ptr
  queuedata_is_head :: bool
  make_request_fn :: "make_request_fn_t option"
  poll_fn :: "poll_fn_t option"
  queue_flags :: "nat list"
  logical_block_size :: nat
  write_cache :: "bool \<times> bool"
  q_dying :: bool

record gendisk =
  gd_addr :: disk_ptr
  fops :: "fops_t option"
  private_data_is_head :: bool
  gd_queue :: request_queue
  gd_flags :: int
  disk_name :: "string \<times> int list"

text \<open>
  The namespace head. \<open>head_list\<close> is \<^verbatim>\<open>head->list\<close>, the sibling paths in stored
  order; \<open>current_path\<close> the cached path (\<open>None\<close> is \<^verbatim>\<open>NULL\<close>); \<open>head_disk\<close> is
  \<^verbatim>\<open>head->disk\<close>, the aggregate device (\<open>None\<close> is \<^verbatim>\<open>NULL\<close>).
\<close>

record nvme_ns_head =
  head_list :: "ns_ptr list"
  current_path :: "ns_ptr option"
  requeue_list :: "bio list"
  requeue_work :: work_struct
  head_disk :: "gendisk option"
  head_instance :: int

text \<open>
  Every call that leaves the file and synchronises, hands a buffer, a request or a device
  to another layer, touches the pending-requeue list or prints a diagnostic is recorded,
  in program order, in a trace.
\<close>

datatype event =
    SPIN_LOCK_INIT
  | SPIN_LOCK
  | SPIN_UNLOCK
  | SRCU_READ_LOCK
  | SRCU_READ_UNLOCK
  | BLK_STEAL_BIOS nat
  | BIO_LIST_ADD bio
  | BIO_LIST_GET
  | BLK_MQ_END_REQUEST nat "8 word"
  | NVME_RESET_CTRL ctrl_ptr
  | KBLOCKD_SCHEDULE_WORK
  | FLUSH_WORK
  | DIRECT_MAKE_REQUEST bio
  | GENERIC_MAKE_REQUEST bio
  | BIO_ENDIO bio
  | DEV_WARN_RATELIMITED string
  | POLL_FN queue_ptr "32 word"
  | BLK_ALLOC_QUEUE_NODE "queue_ptr option"
  | ALLOC_DISK "disk_ptr option"
  | SYSFS_REMOVE_GROUP
  | DEL_GENDISK disk_ptr
  | BLK_SET_QUEUE_DYING queue_ptr
  | BLK_CLEANUP_QUEUE queue_ptr
  | PUT_DISK disk_ptr

text \<open>
  The state the file works on: the controllers and namespaces behind their pointers, the
  namespace head, the module parameter \<^verbatim>\<open>multipath\<close>, and the trace. Two fields
  stand for the lower driver: the cookie \<^verbatim>\<open>direct_make_request\<close> returns for a buffer
  and the answer of a path queue's \<^verbatim>\<open>poll_fn\<close>.
\<close>

record sys =
  ctrls :: "ctrl_ptr \<Rightarrow> nvme_ctrl"
  namespaces :: "ns_ptr \<Rightarrow> nvme_ns"
  nshead :: nvme_ns_head
  multipath :: bool
  dmr_cookie :: "bio \<Rightarrow> 32 word"
  poll_result :: "queue_ptr \<Rightarrow> 32 word \<Rightarrow> bool"
  trace :: "event list"

definition emit :: "event \<Rightarrow> sys \<Rightarrow> sys" where
  "emit e s = s\<lparr>trace := trace s @ [e]\<rparr>"

text \<open>\<^verbatim>\<open>ns->ctrl->state == NVME_CTRL_LIVE\<close>\<close>

definition ns_live :: "sys \<Rightarrow> ns_ptr \<Rightarrow> bool" where
  "ns_live s ns = (state (ctrls s (ns_ctrl (namespaces s ns))) = NVME_CTRL_LIVE)"

subsection \<open>Path selection: \<^verbatim>\<open>__nvme_find_path\<close> and \<^verbatim>\<open>nvme_find_path\<close>\<close>

text \<open>
  The loop of \<^verbatim>\<open>__nvme_find_path\<close> over the sibling list: at the first path whose
  controller is live, store it in \<^verbatim>\<open>head->current_path\<close> and return it.
\<close>

fun nvme_find_path_loop :: "sys \<Rightarrow> ns_ptr list \<Rightarrow> sys \<times> ns_ptr option" where
  "nvme_find_path_loop s [] = (s, None)"
| "nvme_find_path_loop s (ns # rest) =
     (if ns_live s ns
      then (s\<lparr>nshead := (nshead s)\<lparr>current_path := Some ns\<rparr>\<rparr>, Some ns)
      else nvme_find_path_loop s rest)"

text \<open>\<^verbatim>\<open>__nvme_find_path\<close> (an Isabelle name cannot start with an underscore).\<close>

definition nvme_find_path_slow :: "sys \<Rightarrow> sys \<times> ns_ptr option" where
  "nvme_find_path_slow s = nvme_find_path_loop s (head_list (nshead s))"

definition nvme_find_path :: "sys \<Rightarrow> sys \<times> ns_ptr option" where
  "nvme_find_path s =
     (case current_path (nshead s) of
        None \<Rightarrow> nvme_find_path_slow s
      | Some ns \<Rightarrow> if \<not> ns_live s ns then nvme_find_path_slow s else (s, Some ns))"

subsection \<open>Routing: \<^verbatim>\<open>nvme_ns_head_make_request\<close>\<close>

text \<open>
  Modelled from the spec: \<^verbatim>\<open>bio_list_add\<close>, the block layer's list helper, is missing
  from the file; the specification has it "enqueue the request onto the pending-requeue
  queue", a FIFO, so it appends the buffer at the tail.
\<close>

definition bio_list_add :: "sys \<Rightarrow> bio \<Rightarrow> sys" where
  "bio_list_add s b =
     emit (BIO_LIST_ADD b) (s\<lparr>nshead := (nshead s)\<lparr>requeue_list := requeue_list (nshead s) @ [b]\<rparr>\<rparr>)"

definition nvme_ns_head_make_request :: "nvme_h \<Rightarrow> sys \<Rightarrow> bio \<Rightarrow> sys \<times> 32 word" where
  "nvme_ns_head_make_request K s0 b =
     (let s1 = emit SRCU_READ_LOCK s0;
          (s2, found) = nvme_find_path s1
      in case found of
           Some ns \<Rightarrow>
             let b' = b\<lparr>bi_disk := Some (ns_disk (namespaces s2 ns)),
                        bi_opf := bi_opf b OR REQ_NVME_MPATH K\<rparr>;
                 s3 = emit (DIRECT_MAKE_REQUEST b') s2
             in (emit SRCU_READ_UNLOCK s3, dmr_cookie s3 b')
         | None \<Rightarrow>
             if head_list (nshead s2) \<noteq> [] then
               let s3 = emit (DEV_WARN_RATELIMITED ''no path available - requeuing I/O\<newline>'') s2;
                   s4 = emit SPIN_LOCK s3;
                   s5 = bio_list_add s4 b;
                   s6 = emit SPIN_UNLOCK s5
               in (emit SRCU_READ_UNLOCK s6, BLK_QC_T_NONE K)
             else
               let s3 = emit (DEV_WARN_RATELIMITED ''no path - failing I/O\<newline>'') s2;
                   b' = b\<lparr>bi_status := BLK_STS_IOERR K\<rparr>;
                   s4 = emit (BIO_ENDIO b') s3
               in (emit SRCU_READ_UNLOCK s4, BLK_QC_T_NONE K))"

subsection \<open>Polling: \<^verbatim>\<open>nvme_ns_head_poll\<close>\<close>

definition nvme_ns_head_poll :: "sys \<Rightarrow> 32 word \<Rightarrow> sys \<times> bool" where
  "nvme_ns_head_poll s0 qc =
     (let s1 = emit SRCU_READ_LOCK s0
      in case current_path (nshead s1) of
           None \<Rightarrow> (emit SRCU_READ_UNLOCK s1, False)
         | Some ns \<Rightarrow>
             if ns_live s1 ns then
               let q = ns_queue (namespaces s1 ns);
                   s2 = emit (POLL_FN q qc) s1
               in (emit SRCU_READ_UNLOCK s2, poll_result s2 q qc)
             else (emit SRCU_READ_UNLOCK s1, False))"

subsection \<open>Draining: \<^verbatim>\<open>nvme_requeue_work\<close>\<close>

text \<open>
  Modelled from the spec: \<^verbatim>\<open>generic_make_request\<close> is the block layer's submission
  entry point, missing from the file. The specification has a drained buffer resubmitted
  "through the normal entry point (4.4), causing it to go through Selector again", and
  has a queue marked as terminating reject new requests. So a buffer aimed at the
  aggregate device runs the routing function registered on that device's queue, and is
  completed with an I/O error once the queue is dying; a buffer aimed anywhere else
  leaves the model.
\<close>

definition generic_make_request :: "nvme_h \<Rightarrow> sys \<Rightarrow> bio \<Rightarrow> sys" where
  "generic_make_request K s b =
     (let s1 = emit (GENERIC_MAKE_REQUEST b) s
      in case head_disk (nshead s1) of
           None \<Rightarrow> s1
         | Some d \<Rightarrow>
             if bi_disk b \<noteq> Some (gd_addr d) then s1
             else if q_dying (gd_queue d)
             then emit (BIO_ENDIO (b\<lparr>bi_status := BLK_STS_IOERR K\<rparr>)) s1
             else (case make_request_fn (gd_queue d) of
                     None \<Rightarrow> s1
                   | Some FN_nvme_ns_head_make_request \<Rightarrow>
                       fst (nvme_ns_head_make_request K s1 b)))"

text \<open>
  Modelled from the spec: \<^verbatim>\<open>bio_list_get\<close> is missing from the file; the
  specification has the drain "swap the pending queue for an empty one", so it hands out
  the whole chain and leaves the list empty.
\<close>

definition bio_list_get :: "sys \<Rightarrow> sys \<times> bio list" where
  "bio_list_get s =
     (emit BIO_LIST_GET (s\<lparr>nshead := (nshead s)\<lparr>requeue_list := []\<rparr>\<rparr>),
      requeue_list (nshead s))"

text \<open>
  The \<^verbatim>\<open>while\<close> loop over the detached chain: unlink the buffer, aim it at
  \<^verbatim>\<open>head->disk\<close>, resubmit it.
\<close>

fun nvme_requeue_loop :: "nvme_h \<Rightarrow> sys \<Rightarrow> bio list \<Rightarrow> sys" where
  "nvme_requeue_loop K s [] = s"
| "nvme_requeue_loop K s (b # next) =
     nvme_requeue_loop K
       (generic_make_request K s
          (b\<lparr>bi_disk := map_option gd_addr (head_disk (nshead s))\<rparr>))
       next"

text \<open>The critical section of \<^verbatim>\<open>nvme_requeue_work\<close>, and the whole function.\<close>

definition nvme_requeue_swap :: "sys \<Rightarrow> sys \<times> bio list" where
  "nvme_requeue_swap s0 =
     (let s1 = emit SPIN_LOCK s0;
          (s2, next) = bio_list_get s1
      in (emit SPIN_UNLOCK s2, next))"

definition nvme_requeue_work :: "nvme_h \<Rightarrow> sys \<Rightarrow> sys" where
  "nvme_requeue_work K s0 =
     (let (s3, next) = nvme_requeue_swap s0
      in nvme_requeue_loop K s3 next)"

subsection \<open>Failover: \<^verbatim>\<open>nvme_failover_req\<close>\<close>

text \<open>
  Modelled from the spec: \<^verbatim>\<open>blk_steal_bios\<close>, \<^verbatim>\<open>blk_mq_end_request\<close>,
  \<^verbatim>\<open>nvme_reset_ctrl\<close>, \<^verbatim>\<open>kblockd_schedule_work\<close> and \<^verbatim>\<open>flush_work\<close> are missing from
  the file. The specification has the first "detach all I/O buffers owned by the request
  from the request object, appending them to the Namespace Head's pending-requeue
  queue"; the second completes a request to its caller with the given status; the third
  asks the connection to begin recovery; the fourth schedules a run of the work item on
  a background context; the last "forces one final synchronous drain": it runs a
  pending work item to its end before it returns.
\<close>

definition blk_steal_bios :: "sys \<Rightarrow> request \<Rightarrow> sys \<times> request" where
  "blk_steal_bios s req =
     (emit (BLK_STEAL_BIOS (rq_id req))
        (s\<lparr>nshead := (nshead s)\<lparr>requeue_list := requeue_list (nshead s) @ rq_bios req\<rparr>\<rparr>),
      req\<lparr>rq_bios := []\<rparr>)"

definition blk_mq_end_request :: "sys \<Rightarrow> request \<Rightarrow> 8 word \<Rightarrow> sys" where
  "blk_mq_end_request s req error = emit (BLK_MQ_END_REQUEST (rq_id req) error) s"

definition nvme_reset_ctrl :: "sys \<Rightarrow> ctrl_ptr \<Rightarrow> sys" where
  "nvme_reset_ctrl s c = emit (NVME_RESET_CTRL c) s"

definition kblockd_schedule_work :: "sys \<Rightarrow> sys" where
  "kblockd_schedule_work s =
     emit KBLOCKD_SCHEDULE_WORK
       (s\<lparr>nshead := (nshead s)\<lparr>requeue_work := (requeue_work (nshead s))\<lparr>work_pending := True\<rparr>\<rparr>\<rparr>)"

definition flush_work :: "nvme_h \<Rightarrow> sys \<Rightarrow> sys" where
  "flush_work K s =
     (let s1 = emit FLUSH_WORK s;
          w = requeue_work (nshead s1)
      in if work_pending w \<and> work_func w = Some FN_nvme_requeue_work
         then nvme_requeue_work K
                (s1\<lparr>nshead := (nshead s1)\<lparr>requeue_work := w\<lparr>work_pending := False\<rparr>\<rparr>\<rparr>)
         else s1)"

definition nvme_failover_req :: "sys \<Rightarrow> request \<Rightarrow> sys \<times> request" where
  "nvme_failover_req s0 req =
     (let ns = rq_ns req;
          s1 = emit SPIN_LOCK s0;
          (s2, req') = blk_steal_bios s1 req;
          s3 = emit SPIN_UNLOCK s2;
          s4 = blk_mq_end_request s3 req' 0;
          s5 = nvme_reset_ctrl s4 (ns_ctrl (namespaces s4 ns));
          s6 = kblockd_schedule_work s5
      in (s6, req'))"

subsection \<open>Life cycle: \<^verbatim>\<open>nvme_mpath_alloc_disk\<close> and \<^verbatim>\<open>nvme_mpath_remove_disk\<close>\<close>

text \<open>
  A queue as \<^verbatim>\<open>blk_alloc_queue_node\<close> hands it out, at address \<open>a\<close>, and the head's
  queue as \<^verbatim>\<open>nvme_mpath_alloc_disk\<close> sets it up.
\<close>

definition fresh_queue :: "queue_ptr \<Rightarrow> request_queue" where
  "fresh_queue a =
     \<lparr>q_addr = a, queuedata_is_head = False, make_request_fn = None, poll_fn = None,
      queue_flags = [], logical_block_size = 0, write_cache = (False, False),
      q_dying = False\<rparr>"

definition setup_queue :: "nvme_h \<Rightarrow> nvme_ctrl \<Rightarrow> queue_ptr \<Rightarrow> request_queue" where
  "setup_queue K ctrl a =
     (let q0 = fresh_queue a;
          q1 = q0\<lparr>queuedata_is_head := True\<rparr>;
          q2 = q1\<lparr>make_request_fn := Some FN_nvme_ns_head_make_request\<rparr>;
          q3 = q2\<lparr>poll_fn := Some FN_nvme_ns_head_poll\<rparr>;
          q4 = q3\<lparr>queue_flags := QUEUE_FLAG_NONROT K # queue_flags q3\<rparr>;
          q5 = q4\<lparr>logical_block_size := 512\<rparr>;
          vwc_present = (vwc ctrl AND NVME_CTRL_VWC_PRESENT K \<noteq> 0)
      in q5\<lparr>write_cache := (vwc_present, vwc_present)\<rparr>)"

text \<open>
  \<open>q_new\<close> and \<open>d_new\<close> are what \<^verbatim>\<open>blk_alloc_queue_node\<close> and \<^verbatim>\<open>alloc_disk\<close>
  return when they are called: the address of the new object, or \<open>None\<close> for
  \<^verbatim>\<open>NULL\<close>. The result is the new state and the \<^verbatim>\<open>int\<close> the function returns.
\<close>

definition nvme_mpath_alloc_disk ::
  "nvme_h \<Rightarrow> sys \<Rightarrow> ctrl_ptr \<Rightarrow> queue_ptr option \<Rightarrow> disk_ptr option \<Rightarrow> sys \<times> int" where
  "nvme_mpath_alloc_disk K s0 c q_new d_new =
     (let ctrl = ctrls s0 c;
          s1 = s0\<lparr>nshead := (nshead s0)\<lparr>requeue_list := []\<rparr>\<rparr>;
          s2 = emit SPIN_LOCK_INIT s1;
          s3 = s2\<lparr>nshead := (nshead s2)\<lparr>requeue_work :=
                 \<lparr>work_func = Some FN_nvme_requeue_work, work_pending = False\<rparr>\<rparr>\<rparr>
      in if cmic (subsys ctrl) AND push_bit 1 1 = 0 \<or> \<not> multipath s3 then (s3, 0)
         else
           let s4 = emit (BLK_ALLOC_QUEUE_NODE q_new) s3
           in case q_new of
                None \<Rightarrow> (s4, - ENOMEM K)
              | Some a \<Rightarrow>
                  let q = setup_queue K ctrl a;
                      s5 = emit (ALLOC_DISK d_new) s4
                  in (case d_new of
                        None \<Rightarrow>
                          (emit (BLK_CLEANUP_QUEUE (q_addr q))
                             (s5\<lparr>nshead := (nshead s5)\<lparr>head_disk := None\<rparr>\<rparr>),
                           - ENOMEM K)
                      | Some da \<Rightarrow>
                          (s5\<lparr>nshead := (nshead s5)\<lparr>head_disk := Some
                             \<lparr>gd_addr = da, fops = Some FN_nvme_ns_head_ops,
                              private_data_is_head = True, gd_queue = q,
                              gd_flags = GENHD_FL_EXT_DEVT K,
                              disk_name = (''nvme%dn%d'',
                                [subsys_instance (subsys ctrl), head_instance (nshead s5)])\<rparr>\<rparr>\<rparr>,
                           0)))"

text \<open>\<^verbatim>\<open>blk_set_queue_dying\<close> on the queue of the aggregate device \<open>d\<close>.\<close>

definition blk_set_queue_dying :: "sys \<Rightarrow> gendisk \<Rightarrow> sys" where
  "blk_set_queue_dying s d =
     emit (BLK_SET_QUEUE_DYING (q_addr (gd_queue d)))
       (s\<lparr>nshead := (nshead s)\<lparr>head_disk :=
            Some (d\<lparr>gd_queue := (gd_queue d)\<lparr>q_dying := True\<rparr>\<rparr>)\<rparr>\<rparr>)"

definition nvme_mpath_remove_disk :: "nvme_h \<Rightarrow> sys \<Rightarrow> sys" where
  "nvme_mpath_remove_disk K s0 =
     (case head_disk (nshead s0) of
        None \<Rightarrow> s0
      | Some d \<Rightarrow>
          let s1 = emit SYSFS_REMOVE_GROUP s0;
              s2 = emit (DEL_GENDISK (gd_addr d)) s1;
              s3 = blk_set_queue_dying s2 d;
              s4 = kblockd_schedule_work s3;
              s5 = flush_work K s4;
              s6 = emit (BLK_CLEANUP_QUEUE (q_addr (gd_queue d))) s5
          in emit (PUT_DISK (gd_addr d)) s6)"

subsection \<open>Notions used to state the properties\<close>

text \<open>
  The cached path is a member of the path set (the membership half of the data model's
  invariant on the cache), and the cached path exists and its controller is live.
\<close>

definition cache_member :: "sys \<Rightarrow> bool" where
  "cache_member s =
     (case current_path (nshead s) of
        None \<Rightarrow> True
      | Some c \<Rightarrow> c \<in> set (head_list (nshead s)))"

definition cache_live :: "sys \<Rightarrow> bool" where
  "cache_live s =
     (case current_path (nshead s) of None \<Rightarrow> False | Some c \<Rightarrow> ns_live s c)"

text \<open>The first path, in stored order, whose controller is live.\<close>

definition first_live :: "sys \<Rightarrow> ns_ptr option" where
  "first_live s = find (ns_live s) (head_list (nshead s))"

text \<open>The state with \<open>p\<close> stored in the cache slot.\<close>

definition install :: "sys \<Rightarrow> ns_ptr \<Rightarrow> sys" where
  "install s p = s\<lparr>nshead := (nshead s)\<lparr>current_path := Some p\<rparr>\<rparr>"

text \<open>
  A step of the environment: the controller \<open>c\<close> moves to the state \<open>st\<close>. The file
  itself never writes a controller's state.
\<close>

definition set_ctrl_state :: "sys \<Rightarrow> ctrl_ptr \<Rightarrow> nvme_ctrl_state \<Rightarrow> sys" where
  "set_ctrl_state s c st = s\<lparr>ctrls := (ctrls s)(c := (ctrls s c)\<lparr>state := st\<rparr>)\<rparr>"

text \<open>The buffers of the trace, by the call that carried them.\<close>

definition dispatch_of :: "event \<Rightarrow> bio list" where
  "dispatch_of e = (case e of DIRECT_MAKE_REQUEST b \<Rightarrow> [b] | _ \<Rightarrow> [])"

definition endio_of :: "event \<Rightarrow> bio list" where
  "endio_of e = (case e of BIO_ENDIO b \<Rightarrow> [b] | _ \<Rightarrow> [])"

definition submit_of :: "event \<Rightarrow> bio list" where
  "submit_of e = (case e of GENERIC_MAKE_REQUEST b \<Rightarrow> [b] | _ \<Rightarrow> [])"

definition dispatched :: "sys \<Rightarrow> bio list" where
  "dispatched s = concat (map dispatch_of (trace s))"

definition completed :: "sys \<Rightarrow> bio list" where
  "completed s = concat (map endio_of (trace s))"

definition submitted :: "sys \<Rightarrow> bio list" where
  "submitted s = concat (map submit_of (trace s))"

text \<open>
  Every buffer the routing function has been given is dispatched to a path, completed,
  or pending on the requeue list; \<open>accounted\<close> counts them.
\<close>

definition accounted :: "sys \<Rightarrow> nat" where
  "accounted s =
     length (dispatched s) + length (completed s) + length (requeue_list (nshead s))"

text \<open>
  A buffer as the drain loop resubmits it: aimed at \<^verbatim>\<open>head->disk\<close>.
\<close>

definition retarget :: "sys \<Rightarrow> bio \<Rightarrow> bio" where
  "retarget s b = b\<lparr>bi_disk := map_option gd_addr (head_disk (nshead s))\<rparr>"

text \<open>
  What the trace shows of a buffer resubmitted to the aggregate device at address \<open>a\<close>
  once its queue is dying: the submission, then the completion with the I/O error.
\<close>

definition fail_events :: "nvme_h \<Rightarrow> disk_ptr \<Rightarrow> bio \<Rightarrow> event list" where
  "fail_events K a b =
     [GENERIC_MAKE_REQUEST (b\<lparr>bi_disk := Some a\<rparr>),
      BIO_ENDIO (b\<lparr>bi_disk := Some a, bi_status := BLK_STS_IOERR K\<rparr>)]"

text \<open>
  The head with an empty pending-requeue list, an initialised lock and an initialised,
  idle work item; the condition under which an aggregate device is wanted (bit 1 of the
  subsystem's \<^verbatim>\<open>cmic\<close> set and the module parameter on); and the aggregate device a
  successful bring-up builds from a queue at \<open>a\<close> and a disk at \<open>da\<close>.
\<close>

definition init_head :: "sys \<Rightarrow> sys" where
  "init_head s =
     s\<lparr>nshead := (nshead s)\<lparr>requeue_list := [],
          requeue_work := \<lparr>work_func = Some FN_nvme_requeue_work, work_pending = False\<rparr>\<rparr>,
        trace := trace s @ [SPIN_LOCK_INIT]\<rparr>"

definition wants_disk :: "sys \<Rightarrow> ctrl_ptr \<Rightarrow> bool" where
  "wants_disk s c = (bit (cmic (subsys (ctrls s c))) 1 \<and> multipath s)"

definition new_disk :: "nvme_h \<Rightarrow> sys \<Rightarrow> ctrl_ptr \<Rightarrow> queue_ptr \<Rightarrow> disk_ptr \<Rightarrow> gendisk" where
  "new_disk K s c a da =
     \<lparr>gd_addr = da, fops = Some FN_nvme_ns_head_ops, private_data_is_head = True,
      gd_queue = setup_queue K (ctrls s c) a, gd_flags = GENHD_FL_EXT_DEVT K,
      disk_name = (''nvme%dn%d'',
        [subsys_instance (subsys (ctrls s c)), head_instance (nshead s)])\<rparr>"

text \<open>
  The requeue lock as the trace shows it: held after \<^verbatim>\<open>spin_lock\<close>, free after
  \<^verbatim>\<open>spin_unlock\<close>. \<open>waits held es\<close> says that, starting with the lock held or
  not, the events \<open>es\<close> contain a \<^verbatim>\<open>spin_lock\<close> issued while the lock is held, which
  is where a context has to wait for another one. \<open>new_events s s'\<close> are the events
  of \<open>s'\<close> after those of \<open>s\<close>.
\<close>

definition lock_step :: "bool \<Rightarrow> event \<Rightarrow> bool" where
  "lock_step held e = (case e of SPIN_LOCK \<Rightarrow> True | SPIN_UNLOCK \<Rightarrow> False | _ \<Rightarrow> held)"

definition lock_held :: "sys \<Rightarrow> bool" where
  "lock_held s = foldl lock_step False (trace s)"

fun waits :: "bool \<Rightarrow> event list \<Rightarrow> bool" where
  "waits held [] = False"
| "waits held (e # es) = ((e = SPIN_LOCK \<and> held) \<or> waits (lock_step held e) es)"

definition new_events :: "sys \<Rightarrow> sys \<Rightarrow> event list" where
  "new_events s s' = drop (length (trace s)) (trace s')"

subsection \<open>Concrete states\<close>

text \<open>
  A request with the flag word \<open>f\<close> and the completion status \<open>st\<close>, carrying the
  buffers \<open>bs\<close>, completed on the queue of namespace 1.
\<close>

definition demo_req :: "32 word \<Rightarrow> 16 word \<Rightarrow> bio list \<Rightarrow> request" where
  "demo_req f st bs =
     \<lparr>rq_id = 7, cmd_flags = f, status = st, opcode = 1, rq_bios = bs, rq_ns = 1\<rparr>"

definition demo_bio :: "nat \<Rightarrow> bio" where
  "demo_bio n = \<lparr>bi_id = n, bi_disk = Some 50, bi_opf = 0, bi_status = 0\<rparr>"

text \<open>
  A state in which namespace \<open>n\<close> goes through controller \<open>n\<close>, the controllers in
  \<open>live\<close> are live, and the head has the given path set, cache, pending buffers and
  aggregate device.
\<close>

definition demo_sys ::
  "ctrl_ptr list \<Rightarrow> ns_ptr list \<Rightarrow> ns_ptr option \<Rightarrow> bio list \<Rightarrow> gendisk option \<Rightarrow> sys" where
  "demo_sys live paths cache pending d =
     \<lparr>ctrls = (\<lambda>c. \<lparr>state = (if c \<in> set live then NVME_CTRL_LIVE else NVME_CTRL_RECONNECTING),
                     subsys = \<lparr>cmic = 2, subsys_instance = 0\<rparr>, vwc = 1\<rparr>),
      namespaces = (\<lambda>n. \<lparr>ns_ctrl = n, ns_disk = 100 + n, ns_queue = 200 + n\<rparr>),
      nshead = \<lparr>head_list = paths, current_path = cache, requeue_list = pending,
                requeue_work = \<lparr>work_func = Some FN_nvme_requeue_work, work_pending = False\<rparr>,
                head_disk = d, head_instance = 1\<rparr>,
      multipath = True,
      dmr_cookie = (\<lambda>b. word_of_nat (bi_id b)),
      poll_result = (\<lambda>q qc. True),
      trace = []\<rparr>"

text \<open>The aggregate device as a successful bring-up leaves it.\<close>

definition demo_disk :: gendisk where
  "demo_disk =
     \<lparr>gd_addr = 9, fops = Some FN_nvme_ns_head_ops, private_data_is_head = True,
      gd_queue = setup_queue linux_h \<lparr>state = NVME_CTRL_LIVE,
                   subsys = \<lparr>cmic = 2, subsys_instance = 0\<rparr>, vwc = 1\<rparr> 8,
      gd_flags = 0x40, disk_name = (''nvme%dn%d'', [0, 1])\<rparr>"

section \<open>Properties\<close>

subsection \<open>Failure classification\<close>

lemma mask_idem: "(s AND 0x7ff) AND 0x7ff = (s AND 0x7ff :: 16 word)"
  by (simp add: and.assoc)

text \<open>
  The table has eighteen entries, one for each case label of the switch (the guard,
  application-tag and reference-tag check failures are three codes); with the values of
  the NVM Express specification they are eighteen different codes.
\<close>

lemma unretryable_codes_count:
  "length (unretryable_codes K) = 18 \<and> distinct (unretryable_codes linux_h)"
  by (simp add: unretryable_codes_def linux_h_def)

text \<open>
  C1: \<^verbatim>\<open>nvme_req_needs_failover\<close> is a function of the multipath-routed tag and of
  the status code (the low 11 bits of the completion status, which is what the switch
  reads): it returns false for every request that is not tagged; false for every tagged
  request whose status code is in the table of unretryable codes; true for every tagged
  request with any other status code.
\<close>

theorem needs_failover_classification:
  "(\<not> mpath_tagged K (cmd_flags req) \<longrightarrow> \<not> fst (nvme_req_needs_failover K req))
   \<and> (mpath_tagged K (cmd_flags req)
        \<and> uint (status req AND 0x7ff) \<in> set (unretryable_codes K)
        \<longrightarrow> \<not> fst (nvme_req_needs_failover K req))
   \<and> (mpath_tagged K (cmd_flags req)
        \<and> uint (status req AND 0x7ff) \<notin> set (unretryable_codes K)
        \<longrightarrow> fst (nvme_req_needs_failover K req))
   \<and> fst (nvme_req_needs_failover K req) =
        (mpath_tagged K (cmd_flags req)
         \<and> uint (status req AND 0x7ff) \<notin> set (unretryable_codes K))"
proof -
  have eq: "fst (nvme_req_needs_failover K req) =
        (mpath_tagged K (cmd_flags req)
         \<and> uint (status req AND 0x7ff) \<notin> set (unretryable_codes K))"
    by (simp add: nvme_req_needs_failover_def mpath_tagged_def unretryable_codes_def Let_def)
  show ?thesis unfolding eq by blast
qed

text \<open>
  An untagged request with an abort status, a tagged request with the guard check
  failure, and a tagged request with an abort status (a code outside the table).
\<close>

theorem needs_failover_classification_witness:
  "\<not> fst (nvme_req_needs_failover linux_h (demo_req 0 0x7 []))
   \<and> \<not> fst (nvme_req_needs_failover linux_h (demo_req 0x800000 0x282 []))
   \<and> fst (nvme_req_needs_failover linux_h (demo_req 0x800000 0x7 []))"
  using needs_failover_classification [of linux_h "demo_req 0 0x7 []"]
        needs_failover_classification [of linux_h "demo_req 0x800000 0x282 []"]
        needs_failover_classification [of linux_h "demo_req 0x800000 0x7 []"]
  by (simp add: mpath_tagged_def unretryable_codes_def linux_h_def demo_req_def)

text \<open>
  C9: the classification depends only on the low 11 bits of the completion status: the
  result for a status \<open>s\<close> is the result for \<open>s AND 0x7ff\<close>, and two statuses that
  agree in their low 11 bits get the same result.
\<close>

theorem needs_failover_low_bits:
  "nvme_req_needs_failover K (req\<lparr>status := s\<rparr>) =
     nvme_req_needs_failover K (req\<lparr>status := s AND 0x7ff\<rparr>)
   \<and> (s AND 0x7ff = t AND 0x7ff \<longrightarrow>
        nvme_req_needs_failover K (req\<lparr>status := s\<rparr>) =
        nvme_req_needs_failover K (req\<lparr>status := t\<rparr>))"
  by (simp add: nvme_req_needs_failover_def Let_def mask_idem)

text \<open>The guard check failure with and without the do-not-retry bit (bit 14).\<close>

theorem needs_failover_low_bits_witness:
  "nvme_req_needs_failover linux_h (demo_req 0x800000 0x4282 []) =
     nvme_req_needs_failover linux_h (demo_req 0x800000 0x282 [])"
  using needs_failover_low_bits
    [where K = linux_h and req = "demo_req 0x800000 0 []" and s = "0x4282" and t = "0x282"]
  by (simp add: demo_req_def)

subsection \<open>Path selection\<close>

lemma ns_live_nshead [simp]: "ns_live (s\<lparr>nshead := h\<rparr>) = ns_live s"
  by (rule ext) (simp add: ns_live_def)

lemma ns_live_trace [simp]: "ns_live (s\<lparr>trace := t\<rparr>) = ns_live s"
  by (rule ext) (simp add: ns_live_def)

lemma ns_live_emit [simp]: "ns_live (emit e s) = ns_live s"
  by (simp add: emit_def)

text \<open>The loop stops at the first live path and stores it; without one it changes nothing.\<close>

lemma find_path_loop_eq:
  "nvme_find_path_loop s xs =
     (case find (ns_live s) xs of None \<Rightarrow> (s, None) | Some p \<Rightarrow> (install s p, Some p))"
  by (induction xs) (simp_all add: install_def)

lemma find_path_slow_eq:
  "nvme_find_path_slow s =
     (case first_live s of None \<Rightarrow> (s, None) | Some p \<Rightarrow> (install s p, Some p))"
  by (simp add: nvme_find_path_slow_def first_live_def find_path_loop_eq)

lemma first_live_is_live:
  "first_live s = Some p \<Longrightarrow> ns_live s p \<and> p \<in> set (head_list (nshead s))"
  by (auto simp: first_live_def find_Some_iff)

lemma first_live_None:
  "(first_live s = None) = (\<forall>p \<in> set (head_list (nshead s)). \<not> ns_live s p)"
  by (auto simp: first_live_def find_None_iff)

lemma find_path_hit:
  "current_path (nshead s) = Some c \<Longrightarrow> ns_live s c \<Longrightarrow> nvme_find_path s = (s, Some c)"
  by (simp add: nvme_find_path_def)

lemma find_path_miss:
  "\<not> cache_live s \<Longrightarrow> nvme_find_path s = nvme_find_path_slow s"
  by (simp add: nvme_find_path_def cache_live_def split: option.splits)

lemma find_path_returns_live:
  "snd (nvme_find_path s) = Some p \<Longrightarrow> ns_live s p"
  by (auto simp: nvme_find_path_def find_path_slow_eq split: option.splits if_splits
           dest: first_live_is_live)

text \<open>Selection keeps the cached path inside the path set.\<close>

lemma find_path_keeps_cache_member:
  "cache_member s \<Longrightarrow> cache_member (fst (nvme_find_path s))"
  by (auto simp: nvme_find_path_def find_path_slow_eq cache_member_def install_def
           split: option.splits dest: first_live_is_live)

lemma find_path_emit:
  "nvme_find_path (emit e s) = (emit e (fst (nvme_find_path s)), snd (nvme_find_path s))"
  by (simp add: nvme_find_path_def find_path_slow_eq first_live_def install_def emit_def
           split: option.splits)

lemma find_path_None_state: "snd (nvme_find_path s) = None \<Longrightarrow> fst (nvme_find_path s) = s"
  by (auto simp: nvme_find_path_def find_path_slow_eq split: option.splits if_splits)

lemma find_path_fields [simp]:
  "trace (fst (nvme_find_path s)) = trace s"
  "ctrls (fst (nvme_find_path s)) = ctrls s"
  "namespaces (fst (nvme_find_path s)) = namespaces s"
  "dmr_cookie (fst (nvme_find_path s)) = dmr_cookie s"
  "multipath (fst (nvme_find_path s)) = multipath s"
  "poll_result (fst (nvme_find_path s)) = poll_result s"
  by (simp_all add: nvme_find_path_def find_path_slow_eq install_def split: option.splits)

lemma find_path_head_fields [simp]:
  "head_list (nshead (fst (nvme_find_path s))) = head_list (nshead s)"
  "requeue_list (nshead (fst (nvme_find_path s))) = requeue_list (nshead s)"
  "requeue_work (nshead (fst (nvme_find_path s))) = requeue_work (nshead s)"
  "head_disk (nshead (fst (nvme_find_path s))) = head_disk (nshead s)"
  by (simp_all add: nvme_find_path_def find_path_slow_eq install_def split: option.splits)

lemma demo_live [simp]: "ns_live (demo_sys live paths cache pending d) p = (p \<in> set live)"
  by (simp add: ns_live_def demo_sys_def)

lemma demo_namespaces [simp]:
  "namespaces (demo_sys live paths cache pending d) n =
     \<lparr>ns_ctrl = n, ns_disk = 100 + n, ns_queue = 200 + n\<rparr>"
  by (simp add: demo_sys_def)

lemma demo_head [simp]:
  "head_list (nshead (demo_sys live paths cache pending d)) = paths"
  "current_path (nshead (demo_sys live paths cache pending d)) = cache"
  "requeue_list (nshead (demo_sys live paths cache pending d)) = pending"
  "head_disk (nshead (demo_sys live paths cache pending d)) = d"
  by (simp_all add: demo_sys_def)

text \<open>
  With the cached path a member of the path set, no live path in the set means no
  selection. The file keeps the cached path inside the set
  (\<open>find_path_keeps_cache_member\<close>) but does not check it.
\<close>

lemma find_path_none_member:
  assumes "cache_member s" "\<forall>p \<in> set (head_list (nshead s)). \<not> ns_live s p"
  shows "nvme_find_path s = (s, None)"
proof -
  from assms have "\<not> cache_live s"
    by (auto simp: cache_member_def cache_live_def split: option.splits)
  moreover from assms have "first_live s = None" by (simp add: first_live_None)
  ultimately show ?thesis by (simp add: find_path_miss find_path_slow_eq)
qed

text \<open>
  C2, as the code has it: \<^verbatim>\<open>nvme_find_path\<close> never returns a path whose controller is
  not live; it returns a live path whenever some path of the set is live; it returns the
  cached path, changing nothing, whenever the cached path is live, member of the path
  set or not; otherwise it returns the first live path in stored order and stores it in
  the cache, or returns none and changes nothing when there is none. It returns none
  exactly when the cached path is absent or not live and no path of the set is live.
  (Liveness is read in the state at the call; the call does not change any controller.)
\<close>

theorem nvme_find_path_select:
  "(\<forall>p. snd (nvme_find_path s) = Some p \<longrightarrow> ns_live s p)
   \<and> ((\<exists>p \<in> set (head_list (nshead s)). ns_live s p) \<longrightarrow>
        (\<exists>p. snd (nvme_find_path s) = Some p \<and> ns_live s p))
   \<and> (cache_live s \<longrightarrow> nvme_find_path s = (s, current_path (nshead s)))
   \<and> (\<not> cache_live s \<longrightarrow>
        nvme_find_path s =
          (case first_live s of None \<Rightarrow> (s, None) | Some p \<Rightarrow> (install s p, Some p)))
   \<and> (snd (nvme_find_path s) = None) =
        (\<not> cache_live s \<and> (\<forall>p \<in> set (head_list (nshead s)). \<not> ns_live s p))
   \<and> (snd (nvme_find_path s) = None \<longrightarrow> fst (nvme_find_path s) = s)"
proof (intro conjI allI impI)
  fix p assume "snd (nvme_find_path s) = Some p"
  then show "ns_live s p" by (rule find_path_returns_live)
next
  assume ex: "\<exists>p \<in> set (head_list (nshead s)). ns_live s p"
  show "\<exists>p. snd (nvme_find_path s) = Some p \<and> ns_live s p"
  proof (cases "cache_live s")
    case True
    then obtain c where "current_path (nshead s) = Some c" "ns_live s c"
      by (auto simp: cache_live_def split: option.splits)
    then show ?thesis by (simp add: find_path_hit)
  next
    case False
    from ex have "first_live s \<noteq> None" by (simp add: first_live_None)
    then obtain p where p: "first_live s = Some p" by auto
    with False have "snd (nvme_find_path s) = Some p"
      by (simp add: find_path_miss find_path_slow_eq)
    with p show ?thesis by (auto dest: first_live_is_live)
  qed
next
  assume "cache_live s"
  then show "nvme_find_path s = (s, current_path (nshead s))"
    by (auto simp: cache_live_def find_path_hit split: option.splits)
next
  assume "\<not> cache_live s"
  then show "nvme_find_path s =
          (case first_live s of None \<Rightarrow> (s, None) | Some p \<Rightarrow> (install s p, Some p))"
    by (simp add: find_path_miss find_path_slow_eq)
next
  show "(snd (nvme_find_path s) = None) =
        (\<not> cache_live s \<and> (\<forall>p \<in> set (head_list (nshead s)). \<not> ns_live s p))"
  proof (cases "cache_live s")
    case True
    then obtain c where "current_path (nshead s) = Some c" "ns_live s c"
      by (auto simp: cache_live_def split: option.splits)
    with True show ?thesis by (simp add: find_path_hit)
  next
    case False
    then have "snd (nvme_find_path s) = first_live s"
      by (simp add: find_path_miss find_path_slow_eq split: option.splits)
    with False show ?thesis by (simp add: first_live_None)
  qed
next
  assume "snd (nvme_find_path s) = None"
  then show "fst (nvme_find_path s) = s" by (rule find_path_None_state)
qed

text \<open>
  Paths 1, 2, 3 with controllers 2 and 3 live: a live cached path 3 is returned as it
  is; a stale cached path 1 is replaced by path 2, the first live one; with no
  controller live the result is none.
\<close>

theorem nvme_find_path_select_witness:
  "nvme_find_path (demo_sys [2, 3] [1, 2, 3] (Some 3) [] None)
     = (demo_sys [2, 3] [1, 2, 3] (Some 3) [] None, Some 3)
   \<and> nvme_find_path (demo_sys [2, 3] [1, 2, 3] (Some 1) [] None)
     = (install (demo_sys [2, 3] [1, 2, 3] (Some 1) [] None) 2, Some 2)
   \<and> nvme_find_path (demo_sys [] [1, 2, 3] (Some 1) [] None)
     = (demo_sys [] [1, 2, 3] (Some 1) [] None, None)"
  using nvme_find_path_select [of "demo_sys [2, 3] [1, 2, 3] (Some 3) [] None"]
        nvme_find_path_select [of "demo_sys [2, 3] [1, 2, 3] (Some 1) [] None"]
        nvme_find_path_select [of "demo_sys [] [1, 2, 3] (Some 1) [] None"]
  by (simp add: cache_live_def first_live_def)

text \<open>
  The path set holds paths 1 and 2, both down, and the cache holds the live path 5,
  which is not in the set: no path of the set is live, and the selection is path 5, not
  none.
\<close>

theorem nvme_find_path_select_counterexample:
  "head_list (nshead (demo_sys [5] [1, 2] (Some 5) [] None)) = [1, 2]
   \<and> \<not> ns_live (demo_sys [5] [1, 2] (Some 5) [] None) 1
   \<and> \<not> ns_live (demo_sys [5] [1, 2] (Some 5) [] None) 2
   \<and> nvme_find_path (demo_sys [5] [1, 2] (Some 5) [] None)
       = (demo_sys [5] [1, 2] (Some 5) [] None, Some 5)"
  by (simp add: nvme_find_path_def)

lemma live_set_ctrl_state:
  "ns_live (set_ctrl_state s c st) p =
     (if ns_ctrl (namespaces s p) = c then st = NVME_CTRL_LIVE else ns_live s p)"
  by (simp add: ns_live_def set_ctrl_state_def)

lemma nshead_set_ctrl_state [simp]: "nshead (set_ctrl_state s c st) = nshead s"
  by (simp add: set_ctrl_state_def)

lemma namespaces_set_ctrl_state [simp]: "namespaces (set_ctrl_state s c st) = namespaces s"
  by (simp add: set_ctrl_state_def)

text \<open>
  C6: when the cache is empty or the cached path's controller is not live,
  \<^verbatim>\<open>nvme_find_path\<close> is the full scan: its result is the first live path of the set,
  that is, none or a live path other than the cached one. For a path set \<open>[A, B]\<close>
  with \<open>A\<close> cached, once the controller of \<open>B\<close> has become live and the controller of
  \<open>A\<close> has left the live state, it returns \<open>B\<close> (which is not \<open>A\<close>) and caches it.
\<close>

theorem nvme_find_path_stale_cache:
  "(\<not> cache_live s \<longrightarrow>
      nvme_find_path s = nvme_find_path_slow s
      \<and> snd (nvme_find_path s) = first_live s
      \<and> (snd (nvme_find_path s) = None
          \<or> (\<exists>p. snd (nvme_find_path s) = Some p \<and> ns_live s p
                  \<and> current_path (nshead s) \<noteq> Some p)))
   \<and> (head_list (nshead s) = [A, B] \<and> current_path (nshead s) = Some A
        \<and> ns_ctrl (namespaces s A) \<noteq> ns_ctrl (namespaces s B) \<and> st \<noteq> NVME_CTRL_LIVE \<longrightarrow>
        nvme_find_path
          (set_ctrl_state (set_ctrl_state s (ns_ctrl (namespaces s B)) NVME_CTRL_LIVE)
             (ns_ctrl (namespaces s A)) st)
        = (install
             (set_ctrl_state (set_ctrl_state s (ns_ctrl (namespaces s B)) NVME_CTRL_LIVE)
                (ns_ctrl (namespaces s A)) st) B,
           Some B)
        \<and> A \<noteq> B)"
proof (intro conjI impI)
  assume miss: "\<not> cache_live s"
  show "nvme_find_path s = nvme_find_path_slow s"
    using miss by (rule find_path_miss)
  show res: "snd (nvme_find_path s) = first_live s"
    using miss by (simp add: find_path_miss find_path_slow_eq split: option.splits)
  show "snd (nvme_find_path s) = None
        \<or> (\<exists>p. snd (nvme_find_path s) = Some p \<and> ns_live s p
                \<and> current_path (nshead s) \<noteq> Some p)"
  proof (cases "first_live s")
    case None
    with res show ?thesis by simp
  next
    case (Some p)
    then have "ns_live s p" by (simp add: first_live_is_live)
    moreover from this miss have "current_path (nshead s) \<noteq> Some p"
      by (auto simp: cache_live_def)
    ultimately show ?thesis using res Some by simp
  qed
next
  assume a: "head_list (nshead s) = [A, B] \<and> current_path (nshead s) = Some A
        \<and> ns_ctrl (namespaces s A) \<noteq> ns_ctrl (namespaces s B) \<and> st \<noteq> NVME_CTRL_LIVE"
  define s' where
    "s' = set_ctrl_state (set_ctrl_state s (ns_ctrl (namespaces s B)) NVME_CTRL_LIVE)
            (ns_ctrl (namespaces s A)) st"
  have A: "\<not> ns_live s' A" using a by (simp add: s'_def live_set_ctrl_state)
  have B: "ns_live s' B" using a by (simp add: s'_def live_set_ctrl_state)
  have "\<not> cache_live s'" using a A by (simp add: cache_live_def s'_def)
  moreover have "first_live s' = Some B"
    using a A B by (simp add: first_live_def s'_def)
  ultimately have "nvme_find_path s' = (install s' B, Some B)"
    by (simp add: find_path_miss find_path_slow_eq)
  then show "nvme_find_path
          (set_ctrl_state (set_ctrl_state s (ns_ctrl (namespaces s B)) NVME_CTRL_LIVE)
             (ns_ctrl (namespaces s A)) st)
        = (install
             (set_ctrl_state (set_ctrl_state s (ns_ctrl (namespaces s B)) NVME_CTRL_LIVE)
                (ns_ctrl (namespaces s A)) st) B,
           Some B)"
    by (simp add: s'_def)
  show "A \<noteq> B" using a by auto
qed

text \<open>
  Paths \<open>[1, 2]\<close> with path 1 cached and only controller 1 live: after controller 2
  has become live and controller 1 has started to reconnect, the selection is path 2;
  and with path 1 cached and no controller live, the selection is none.
\<close>

theorem nvme_find_path_stale_cache_witness:
  "snd (nvme_find_path
      (set_ctrl_state (set_ctrl_state (demo_sys [1] [1, 2] (Some 1) [] None) 2 NVME_CTRL_LIVE)
         1 NVME_CTRL_RECONNECTING)) = Some 2
   \<and> snd (nvme_find_path (demo_sys [] [1, 2] (Some 1) [] None)) = None"
  using nvme_find_path_stale_cache
          [where s = "demo_sys [1] [1, 2] (Some 1) [] None" and A = 1 and B = 2
             and st = NVME_CTRL_RECONNECTING]
        nvme_find_path_stale_cache
          [where s = "demo_sys [] [1, 2] (Some 1) [] None" and A = 1 and B = 2
             and st = NVME_CTRL_RECONNECTING]
  by (simp add: cache_live_def first_live_def find_path_slow_eq)

subsection \<open>Routing\<close>

text \<open>The three branches of \<^verbatim>\<open>nvme_ns_head_make_request\<close>, by the result of the selection.\<close>

lemma route_dispatch:
  assumes "snd (nvme_find_path s) = Some p"
  shows "nvme_ns_head_make_request K s b =
          ((fst (nvme_find_path s))\<lparr>trace := trace s @
              [SRCU_READ_LOCK,
               DIRECT_MAKE_REQUEST (b\<lparr>bi_disk := Some (ns_disk (namespaces s p)),
                                      bi_opf := bi_opf b OR REQ_NVME_MPATH K\<rparr>),
               SRCU_READ_UNLOCK]\<rparr>,
           dmr_cookie s (b\<lparr>bi_disk := Some (ns_disk (namespaces s p)),
                           bi_opf := bi_opf b OR REQ_NVME_MPATH K\<rparr>))"
  using assms
  by (simp add: nvme_ns_head_make_request_def Let_def find_path_emit)
     (simp add: emit_def)

lemma route_requeue:
  assumes "snd (nvme_find_path s) = None" "head_list (nshead s) \<noteq> []"
  shows "nvme_ns_head_make_request K s b =
          (s\<lparr>nshead := (nshead s)\<lparr>requeue_list := requeue_list (nshead s) @ [b]\<rparr>,
             trace := trace s @
              [SRCU_READ_LOCK, DEV_WARN_RATELIMITED ''no path available - requeuing I/O\<newline>'',
               SPIN_LOCK, BIO_LIST_ADD b, SPIN_UNLOCK, SRCU_READ_UNLOCK]\<rparr>,
           BLK_QC_T_NONE K)"
  using assms find_path_None_state [OF assms(1)]
  by (simp add: nvme_ns_head_make_request_def Let_def find_path_emit)
     (simp add: emit_def bio_list_add_def)

lemma route_fail:
  assumes "snd (nvme_find_path s) = None" "head_list (nshead s) = []"
  shows "nvme_ns_head_make_request K s b =
          (s\<lparr>trace := trace s @
              [SRCU_READ_LOCK, DEV_WARN_RATELIMITED ''no path - failing I/O\<newline>'',
               BIO_ENDIO (b\<lparr>bi_status := BLK_STS_IOERR K\<rparr>), SRCU_READ_UNLOCK]\<rparr>,
           BLK_QC_T_NONE K)"
  using assms find_path_None_state [OF assms(1)]
  by (simp add: nvme_ns_head_make_request_def Let_def find_path_emit)
     (simp add: emit_def)

lemma empty_set_no_path:
  assumes "cache_member s" "head_list (nshead s) = []"
  shows "snd (nvme_find_path s) = None"
  using assms
  by (auto simp: cache_member_def nvme_find_path_def find_path_slow_eq first_live_def
           split: option.splits)

lemma route_accounted:
  "accounted (fst (nvme_ns_head_make_request K s b)) = accounted s + 1"
proof (cases "snd (nvme_find_path s)")
  case (Some p)
  then show ?thesis
    by (simp add: route_dispatch accounted_def dispatched_def completed_def
          dispatch_of_def endio_of_def)
next
  case None
  then show ?thesis
    by (cases "head_list (nshead s) = []")
       (simp_all add: route_requeue route_fail accounted_def dispatched_def completed_def
          dispatch_of_def endio_of_def)
qed

lemma demo_trace [simp]: "trace (demo_sys live paths cache pending d) = []"
  by (simp add: demo_sys_def)

lemma linux_h_flags:
  "REQ_NVME_MPATH linux_h = 0x800000" "BLK_STS_IOERR linux_h = 10"
  "BLK_QC_T_NONE linux_h = 0xffffffff" "ENOMEM linux_h = 12"
  by (simp_all add: linux_h_def)

lemma tag_set: "(x OR m) AND m = (m :: 32 word)"
  by (simp add: bit_eq_iff bit_and_iff bit_or_iff)

lemma new_events_app: "trace s' = trace s @ es \<Longrightarrow> new_events s s' = es"
  by (simp add: new_events_def)

lemma lock_held_app: "trace s' = trace s @ es \<Longrightarrow> lock_held s' = foldl lock_step (lock_held s) es"
  by (simp add: lock_held_def)

lemma empty_set_not_live:
  "head_list (nshead s) = [] \<Longrightarrow> (snd (nvme_find_path s) = None) = (\<not> cache_live s)"
  by (auto simp: nvme_find_path_def find_path_slow_eq first_live_def cache_live_def
           split: option.splits)

lemma route_trace:
  "trace (fst (nvme_ns_head_make_request K s b)) = trace s @
     (case snd (nvme_find_path s) of
        Some p \<Rightarrow>
          [SRCU_READ_LOCK,
           DIRECT_MAKE_REQUEST (b\<lparr>bi_disk := Some (ns_disk (namespaces s p)),
                                  bi_opf := bi_opf b OR REQ_NVME_MPATH K\<rparr>),
           SRCU_READ_UNLOCK]
      | None \<Rightarrow>
          if head_list (nshead s) \<noteq> [] then
            [SRCU_READ_LOCK, DEV_WARN_RATELIMITED ''no path available - requeuing I/O\<newline>'',
             SPIN_LOCK, BIO_LIST_ADD b, SPIN_UNLOCK, SRCU_READ_UNLOCK]
          else
            [SRCU_READ_LOCK, DEV_WARN_RATELIMITED ''no path - failing I/O\<newline>'',
             BIO_ENDIO (b\<lparr>bi_status := BLK_STS_IOERR K\<rparr>), SRCU_READ_UNLOCK])"
proof (cases "snd (nvme_find_path s)")
  case (Some p)
  then show ?thesis by (simp add: route_dispatch)
next
  case None
  then show ?thesis
    by (cases "head_list (nshead s) = []") (simp_all add: route_requeue route_fail)
qed

lemma route_waits:
  "waits (lock_held s) (new_events s (fst (nvme_ns_head_make_request K s b))) =
     (lock_held s \<and> snd (nvme_find_path s) = None \<and> head_list (nshead s) \<noteq> [])"
  by (simp add: new_events_app [OF route_trace] lock_step_def split: option.splits)

lemma route_lock_free:
  "(SPIN_LOCK \<in> set (new_events s (fst (nvme_ns_head_make_request K s b)))) =
     (snd (nvme_find_path s) = None \<and> head_list (nshead s) \<noteq> [])"
  by (simp add: new_events_app [OF route_trace] split: option.splits)

lemma route_releases:
  "\<not> lock_held s \<Longrightarrow> \<not> lock_held (fst (nvme_ns_head_make_request K s b))"
  by (simp add: lock_held_app [OF route_trace] lock_step_def split: option.splits)

lemma demo_lock [simp]: "lock_held (demo_sys live paths cache pending d) = False"
  by (simp add: lock_held_def)

text \<open>
  C4, as the code has it: \<^verbatim>\<open>nvme_ns_head_make_request\<close> has three outcomes, decided
  by the selection. When the selection returns a path (a live one; it is the cached path
  whenever that is live, also when the path set is empty), the buffer gets the multipath
  tag and the path's disk as its target and is dispatched. When the selection returns
  none and the path set is not empty, the buffer is appended to the pending-requeue list
  between taking and releasing the requeue lock. When the selection returns none and the
  path set is empty, which is when the set is empty and the cached path is absent or not
  live, the buffer is completed with the I/O error status. In every case the buffer is
  accounted for exactly once: dispatched, pending or completed. The requeue lock is
  taken in the second outcome only; so the function waits for the lock only there, and
  only when another context holds it at the call, and it leaves the lock free if it
  found it free.
\<close>

theorem nvme_ns_head_make_request_outcomes:
  "(\<forall>p. snd (nvme_find_path s) = Some p \<longrightarrow>
      ns_live s p
      \<and> nvme_ns_head_make_request K s b =
          ((fst (nvme_find_path s))\<lparr>trace := trace s @
              [SRCU_READ_LOCK,
               DIRECT_MAKE_REQUEST (b\<lparr>bi_disk := Some (ns_disk (namespaces s p)),
                                      bi_opf := bi_opf b OR REQ_NVME_MPATH K\<rparr>),
               SRCU_READ_UNLOCK]\<rparr>,
           dmr_cookie s (b\<lparr>bi_disk := Some (ns_disk (namespaces s p)),
                           bi_opf := bi_opf b OR REQ_NVME_MPATH K\<rparr>))
      \<and> (bi_opf b OR REQ_NVME_MPATH K) AND REQ_NVME_MPATH K = REQ_NVME_MPATH K)
   \<and> (snd (nvme_find_path s) = None \<and> head_list (nshead s) \<noteq> [] \<longrightarrow>
        nvme_ns_head_make_request K s b =
          (s\<lparr>nshead := (nshead s)\<lparr>requeue_list := requeue_list (nshead s) @ [b]\<rparr>,
             trace := trace s @
              [SRCU_READ_LOCK, DEV_WARN_RATELIMITED ''no path available - requeuing I/O\<newline>'',
               SPIN_LOCK, BIO_LIST_ADD b, SPIN_UNLOCK, SRCU_READ_UNLOCK]\<rparr>,
           BLK_QC_T_NONE K))
   \<and> (head_list (nshead s) = [] \<and> \<not> cache_live s \<longrightarrow>
        snd (nvme_find_path s) = None
        \<and> nvme_ns_head_make_request K s b =
          (s\<lparr>trace := trace s @
              [SRCU_READ_LOCK, DEV_WARN_RATELIMITED ''no path - failing I/O\<newline>'',
               BIO_ENDIO (b\<lparr>bi_status := BLK_STS_IOERR K\<rparr>), SRCU_READ_UNLOCK]\<rparr>,
           BLK_QC_T_NONE K))
   \<and> accounted (fst (nvme_ns_head_make_request K s b)) = accounted s + 1
   \<and> (SPIN_LOCK \<in> set (new_events s (fst (nvme_ns_head_make_request K s b)))) =
       (snd (nvme_find_path s) = None \<and> head_list (nshead s) \<noteq> [])
   \<and> waits (lock_held s) (new_events s (fst (nvme_ns_head_make_request K s b))) =
       (lock_held s \<and> snd (nvme_find_path s) = None \<and> head_list (nshead s) \<noteq> [])
   \<and> (\<not> lock_held s \<longrightarrow> \<not> lock_held (fst (nvme_ns_head_make_request K s b)))"
proof (intro conjI allI impI)
  fix p assume p: "snd (nvme_find_path s) = Some p"
  then show "ns_live s p" by (rule find_path_returns_live)
  from p show "nvme_ns_head_make_request K s b =
          ((fst (nvme_find_path s))\<lparr>trace := trace s @
              [SRCU_READ_LOCK,
               DIRECT_MAKE_REQUEST (b\<lparr>bi_disk := Some (ns_disk (namespaces s p)),
                                      bi_opf := bi_opf b OR REQ_NVME_MPATH K\<rparr>),
               SRCU_READ_UNLOCK]\<rparr>,
           dmr_cookie s (b\<lparr>bi_disk := Some (ns_disk (namespaces s p)),
                           bi_opf := bi_opf b OR REQ_NVME_MPATH K\<rparr>))"
    by (rule route_dispatch)
  show "(bi_opf b OR REQ_NVME_MPATH K) AND REQ_NVME_MPATH K = REQ_NVME_MPATH K"
    by (rule tag_set)
next
  assume "snd (nvme_find_path s) = None \<and> head_list (nshead s) \<noteq> []"
  then show "nvme_ns_head_make_request K s b =
          (s\<lparr>nshead := (nshead s)\<lparr>requeue_list := requeue_list (nshead s) @ [b]\<rparr>,
             trace := trace s @
              [SRCU_READ_LOCK, DEV_WARN_RATELIMITED ''no path available - requeuing I/O\<newline>'',
               SPIN_LOCK, BIO_LIST_ADD b, SPIN_UNLOCK, SRCU_READ_UNLOCK]\<rparr>,
           BLK_QC_T_NONE K)"
    by (simp add: route_requeue)
next
  assume a: "head_list (nshead s) = [] \<and> \<not> cache_live s"
  then show none: "snd (nvme_find_path s) = None"
    by (simp add: empty_set_not_live)
  with a show "nvme_ns_head_make_request K s b =
          (s\<lparr>trace := trace s @
              [SRCU_READ_LOCK, DEV_WARN_RATELIMITED ''no path - failing I/O\<newline>'',
               BIO_ENDIO (b\<lparr>bi_status := BLK_STS_IOERR K\<rparr>), SRCU_READ_UNLOCK]\<rparr>,
           BLK_QC_T_NONE K)"
    by (simp add: route_fail)
next
  show "accounted (fst (nvme_ns_head_make_request K s b)) = accounted s + 1"
    by (rule route_accounted)
  show "(SPIN_LOCK \<in> set (new_events s (fst (nvme_ns_head_make_request K s b)))) =
       (snd (nvme_find_path s) = None \<and> head_list (nshead s) \<noteq> [])"
    by (rule route_lock_free)
  show "waits (lock_held s) (new_events s (fst (nvme_ns_head_make_request K s b))) =
       (lock_held s \<and> snd (nvme_find_path s) = None \<and> head_list (nshead s) \<noteq> [])"
    by (rule route_waits)
next
  assume "\<not> lock_held s"
  then show "\<not> lock_held (fst (nvme_ns_head_make_request K s b))"
    by (rule route_releases)
qed

text \<open>
  Buffer 4 routed on a head with a live path 2, on a head whose two paths are both down,
  and on a head without paths and without a live cached path: dispatched with the tag to
  disk 102; put on the pending list, the lock free again afterwards; completed with
  status 10.
\<close>

theorem nvme_ns_head_make_request_outcomes_witness:
  "dispatched (fst (nvme_ns_head_make_request linux_h (demo_sys [2] [1, 2] None [] None)
       (demo_bio 4)))
     = [\<lparr>bi_id = 4, bi_disk = Some 102, bi_opf = 0x800000, bi_status = 0\<rparr>]
   \<and> requeue_list (nshead (fst (nvme_ns_head_make_request linux_h
       (demo_sys [] [1, 2] (Some 1) [] None) (demo_bio 4))))
     = [demo_bio 4]
   \<and> completed (fst (nvme_ns_head_make_request linux_h (demo_sys [2] [] None [] None)
       (demo_bio 4)))
     = [\<lparr>bi_id = 4, bi_disk = Some 50, bi_opf = 0, bi_status = 10\<rparr>]
   \<and> \<not> lock_held (fst (nvme_ns_head_make_request linux_h
       (demo_sys [] [1, 2] (Some 1) [] None) (demo_bio 4)))"
proof -
  let ?hit = "demo_sys [2] [1, 2] None [] None"
  let ?down = "demo_sys [] [1, 2] (Some 1) [] None"
  let ?none = "demo_sys [2] [] None [] None"
  note hit = nvme_ns_head_make_request_outcomes [of ?hit linux_h "demo_bio 4"]
  note down = nvme_ns_head_make_request_outcomes [of ?down linux_h "demo_bio 4"]
  note none = nvme_ns_head_make_request_outcomes [of ?none linux_h "demo_bio 4"]
  have 1: "snd (nvme_find_path ?hit) = Some 2"
    by (simp add: nvme_find_path_def find_path_slow_eq first_live_def)
  have 2: "snd (nvme_find_path ?down) = None"
    by (simp add: nvme_find_path_def find_path_slow_eq first_live_def)
  have 3: "\<not> cache_live ?none"
    by (simp add: cache_live_def)
  have a: "dispatched (fst (nvme_ns_head_make_request linux_h ?hit (demo_bio 4)))
     = [\<lparr>bi_id = 4, bi_disk = Some 102, bi_opf = 0x800000, bi_status = 0\<rparr>]"
    using 1 hit
    by (simp add: dispatched_def dispatch_of_def demo_bio_def linux_h_flags)
  have b: "requeue_list (nshead (fst (nvme_ns_head_make_request linux_h ?down (demo_bio 4))))
     = [demo_bio 4]"
    using 2 down by simp
  have c: "completed (fst (nvme_ns_head_make_request linux_h ?none (demo_bio 4)))
     = [\<lparr>bi_id = 4, bi_disk = Some 50, bi_opf = 0, bi_status = 10\<rparr>]"
    using 3 none
    by (simp add: completed_def endio_of_def demo_bio_def linux_h_flags)
  have "\<not> lock_held ?down \<longrightarrow>
        \<not> lock_held (fst (nvme_ns_head_make_request linux_h ?down (demo_bio 4)))"
    using down by (elim conjE)
  then have d: "\<not> lock_held (fst (nvme_ns_head_make_request linux_h ?down (demo_bio 4)))"
    by simp
  from a b c d show ?thesis by (intro conjI)
qed

text \<open>
  On a head whose path set is empty and whose cache holds the live path 5, buffer 4 is
  dispatched to disk 105 and not completed with an error. On a head whose two paths are
  down, called while another context holds the requeue lock, the function takes the
  lock while it is held: it has to wait.
\<close>

theorem nvme_ns_head_make_request_outcomes_counterexample:
  "head_list (nshead (demo_sys [5] [] (Some 5) [] None)) = []
   \<and> dispatched (fst (nvme_ns_head_make_request linux_h (demo_sys [5] [] (Some 5) [] None)
        (demo_bio 4)))
      = [\<lparr>bi_id = 4, bi_disk = Some 105, bi_opf = 0x800000, bi_status = 0\<rparr>]
   \<and> completed (fst (nvme_ns_head_make_request linux_h (demo_sys [5] [] (Some 5) [] None)
        (demo_bio 4))) = []
   \<and> lock_held (emit SPIN_LOCK (demo_sys [] [1, 2] None [] None))
   \<and> waits (lock_held (emit SPIN_LOCK (demo_sys [] [1, 2] None [] None)))
        (new_events (emit SPIN_LOCK (demo_sys [] [1, 2] None [] None))
           (fst (nvme_ns_head_make_request linux_h
              (emit SPIN_LOCK (demo_sys [] [1, 2] None [] None)) (demo_bio 4))))"
proof -
  let ?stale = "demo_sys [5] [] (Some 5) [] None"
  let ?busy = "emit SPIN_LOCK (demo_sys [] [1, 2] None [] None)"
  have 1: "snd (nvme_find_path ?stale) = Some 5"
    by (simp add: nvme_find_path_def)
  have 2: "snd (nvme_find_path ?busy) = None"
    by (simp add: find_path_emit) (simp add: nvme_find_path_def find_path_slow_eq first_live_def)
  have 3: "lock_held ?busy"
    by (simp add: lock_held_def emit_def lock_step_def)
  have 4: "head_list (nshead ?busy) \<noteq> []"
    by (simp add: emit_def)
  have a: "head_list (nshead ?stale) = []" by simp
  have b: "dispatched (fst (nvme_ns_head_make_request linux_h ?stale (demo_bio 4)))
      = [\<lparr>bi_id = 4, bi_disk = Some 105, bi_opf = 0x800000, bi_status = 0\<rparr>]"
    by (simp add: route_dispatch [OF 1] dispatched_def dispatch_of_def demo_bio_def
          linux_h_flags)
  have c: "completed (fst (nvme_ns_head_make_request linux_h ?stale (demo_bio 4))) = []"
    by (simp add: route_dispatch [OF 1] completed_def endio_of_def)
  have d: "waits (lock_held ?busy)
        (new_events ?busy (fst (nvme_ns_head_make_request linux_h ?busy (demo_bio 4))))"
    unfolding route_waits using 2 3 4 by (intro conjI)
  from a b c 3 d show ?thesis by (intro conjI)
qed

subsection \<open>Polling\<close>

text \<open>
  C10: \<^verbatim>\<open>nvme_ns_head_poll\<close> looks at the cached path only. When a cached path exists
  and its controller is live, it calls the \<^verbatim>\<open>poll_fn\<close> of that path's queue and returns
  its answer. Otherwise it returns false, and apart from entering and leaving the SRCU
  read section nothing happens: no \<^verbatim>\<open>poll_fn\<close> is called, and the state (path set,
  cache, pending list, controllers) is the one before the call, also when the path set
  holds a live path that a scan would have found and cached. In both cases the head is
  left as it was.
\<close>

theorem nvme_ns_head_poll_cached_only:
  "(\<forall>p. current_path (nshead s) = Some p \<and> ns_live s p \<longrightarrow>
      nvme_ns_head_poll s qc =
        (s\<lparr>trace := trace s @
            [SRCU_READ_LOCK, POLL_FN (ns_queue (namespaces s p)) qc, SRCU_READ_UNLOCK]\<rparr>,
         poll_result s (ns_queue (namespaces s p)) qc))
   \<and> (\<not> cache_live s \<longrightarrow>
        nvme_ns_head_poll s qc =
          (s\<lparr>trace := trace s @ [SRCU_READ_LOCK, SRCU_READ_UNLOCK]\<rparr>, False))
   \<and> nshead (fst (nvme_ns_head_poll s qc)) = nshead s"
  by (auto simp: nvme_ns_head_poll_def cache_live_def emit_def Let_def split: option.splits)

text \<open>
  With path 3 cached and live the poll is delegated to queue 203. With an empty cache
  and the live path 2 in the set the poll returns false and leaves the cache empty,
  where the selection returns path 2.
\<close>

theorem nvme_ns_head_poll_cached_only_witness:
  "nvme_ns_head_poll (demo_sys [2, 3] [1, 2, 3] (Some 3) [] None) 5 =
     ((demo_sys [2, 3] [1, 2, 3] (Some 3) [] None)
        \<lparr>trace := [SRCU_READ_LOCK, POLL_FN 203 5, SRCU_READ_UNLOCK]\<rparr>, True)
   \<and> nvme_ns_head_poll (demo_sys [2, 3] [1, 2, 3] None [] None) 5 =
     ((demo_sys [2, 3] [1, 2, 3] None [] None)
        \<lparr>trace := [SRCU_READ_LOCK, SRCU_READ_UNLOCK]\<rparr>, False)
   \<and> snd (nvme_find_path (demo_sys [2, 3] [1, 2, 3] None [] None)) = Some 2"
proof -
  have sel: "snd (nvme_find_path (demo_sys [2, 3] [1, 2, 3] None [] None)) = Some 2"
    by (simp add: nvme_find_path_def find_path_slow_eq first_live_def)
  have pr: "poll_result (demo_sys l ps c pend d) q x = True" for l ps c pend d q x
    by (simp add: demo_sys_def)
  show ?thesis
    using sel
      nvme_ns_head_poll_cached_only [of "demo_sys [2, 3] [1, 2, 3] (Some 3) [] None" 5]
      nvme_ns_head_poll_cached_only [of "demo_sys [2, 3] [1, 2, 3] None [] None" 5]
    by (simp add: cache_live_def pr)
qed

subsection \<open>Draining\<close>

lemma submitted_emit:
  "submitted (emit e s) = submitted s @ submit_of e"
  by (simp add: submitted_def emit_def)

lemma route_head_disk [simp]:
  "head_disk (nshead (fst (nvme_ns_head_make_request K s b))) = head_disk (nshead s)"
proof (cases "snd (nvme_find_path s)")
  case (Some p)
  then show ?thesis by (simp add: route_dispatch)
next
  case None
  then show ?thesis
    by (cases "head_list (nshead s) = []") (simp_all add: route_requeue route_fail)
qed

lemma route_submitted [simp]:
  "submitted (fst (nvme_ns_head_make_request K s b)) = submitted s"
proof (cases "snd (nvme_find_path s)")
  case (Some p)
  then show ?thesis by (simp add: route_dispatch submitted_def submit_of_def)
next
  case None
  then show ?thesis
    by (cases "head_list (nshead s) = []")
       (simp_all add: route_requeue route_fail submitted_def submit_of_def)
qed


lemma nshead_emit [simp]: "nshead (emit e s) = nshead s"
  by (simp add: emit_def)

lemma gmr_head_disk [simp]:
  "head_disk (nshead (generic_make_request K s b)) = head_disk (nshead s)"
  by (simp add: generic_make_request_def Let_def split: option.splits make_request_fn_t.splits)

lemma gmr_submitted [simp]:
  "submitted (generic_make_request K s b) = submitted s @ [b]"
  by (simp add: generic_make_request_def Let_def submitted_emit submit_of_def
           split: option.splits make_request_fn_t.splits)


lemma loop_head_disk [simp]:
  "head_disk (nshead (nvme_requeue_loop K s xs)) = head_disk (nshead s)"
  by (induction xs arbitrary: s) simp_all

lemma loop_submitted:
  "submitted (nvme_requeue_loop K s xs) = submitted s @ map (retarget s) xs"
  by (induction xs arbitrary: s) (simp_all add: retarget_def)


lemma loop_append:
  "nvme_requeue_loop K s (xs @ ys) = nvme_requeue_loop K (nvme_requeue_loop K s xs) ys"
  by (induction xs arbitrary: s) simp_all

lemma swap_eq:
  "nvme_requeue_swap s =
     (s\<lparr>nshead := (nshead s)\<lparr>requeue_list := []\<rparr>,
        trace := trace s @ [SPIN_LOCK, BIO_LIST_GET, SPIN_UNLOCK]\<rparr>,
      requeue_list (nshead s))"
  by (simp add: nvme_requeue_swap_def bio_list_get_def emit_def Let_def)

lemma swap_submitted: "submitted (fst (nvme_requeue_swap s)) = submitted s"
  by (simp add: swap_eq submitted_def submit_of_def)

lemma retarget_swap: "retarget (fst (nvme_requeue_swap s)) = retarget s"
  by (rule ext) (simp add: swap_eq retarget_def)

lemma work_submitted:
  "submitted (nvme_requeue_work K s) = submitted s @ map (retarget s) (requeue_list (nshead s))"
proof -
  have "nvme_requeue_work K s =
          nvme_requeue_loop K (fst (nvme_requeue_swap s)) (requeue_list (nshead s))"
    by (simp add: nvme_requeue_work_def swap_eq)
  then show ?thesis
    by (simp add: loop_submitted swap_submitted retarget_swap)
qed

lemma demo_disk_fields:
  "gd_addr demo_disk = 9" "q_dying (gd_queue demo_disk) = False"
  "make_request_fn (gd_queue demo_disk) = Some FN_nvme_ns_head_make_request"
  "q_addr (gd_queue demo_disk) = 8"
  by (simp_all add: demo_disk_def setup_queue_def fresh_queue_def Let_def)

lemma demo_work [simp]:
  "requeue_work (nshead (demo_sys live paths cache pending d)) =
     \<lparr>work_func = Some FN_nvme_requeue_work, work_pending = False\<rparr>"
  by (simp add: demo_sys_def)

lemma demo_ctrls [simp]:
  "cmic (subsys (ctrls (demo_sys live paths cache pending d) c)) = 2"
  "multipath (demo_sys live paths cache pending d) = True"
  by (simp_all add: demo_sys_def)



subsection \<open>Failover\<close>

lemma failover_req_eq:
  "nvme_failover_req s req =
     (s\<lparr>nshead := (nshead s)
           \<lparr>requeue_list := requeue_list (nshead s) @ rq_bios req,
            requeue_work := (requeue_work (nshead s))\<lparr>work_pending := True\<rparr>\<rparr>,
         trace := trace s @
           [SPIN_LOCK, BLK_STEAL_BIOS (rq_id req), SPIN_UNLOCK,
            BLK_MQ_END_REQUEST (rq_id req) 0,
            NVME_RESET_CTRL (ns_ctrl (namespaces s (rq_ns req))),
            KBLOCKD_SCHEDULE_WORK]\<rparr>,
      req\<lparr>rq_bios := []\<rparr>)"
  by (simp add: nvme_failover_req_def blk_steal_bios_def blk_mq_end_request_def
        nvme_reset_ctrl_def kblockd_schedule_work_def emit_def Let_def)

text \<open>
  C3: \<^verbatim>\<open>nvme_failover_req\<close> takes the requeue lock, moves every buffer of the request
  to the tail of the pending-requeue list and releases the lock; then completes the
  request with status 0, whatever its NVMe completion status was; then asks the
  controller of the request's namespace to reset; then schedules the requeue work. The
  request is left without buffers, and the scheduled work, when it runs, resubmits
  every one of them (after the buffers that were pending before).
\<close>

theorem nvme_failover_req_absorbs:
  "nvme_failover_req s req =
     (s\<lparr>nshead := (nshead s)
           \<lparr>requeue_list := requeue_list (nshead s) @ rq_bios req,
            requeue_work := (requeue_work (nshead s))\<lparr>work_pending := True\<rparr>\<rparr>,
         trace := trace s @
           [SPIN_LOCK, BLK_STEAL_BIOS (rq_id req), SPIN_UNLOCK,
            BLK_MQ_END_REQUEST (rq_id req) 0,
            NVME_RESET_CTRL (ns_ctrl (namespaces s (rq_ns req))),
            KBLOCKD_SCHEDULE_WORK]\<rparr>,
      req\<lparr>rq_bios := []\<rparr>)
   \<and> submitted (nvme_requeue_work K (fst (nvme_failover_req s req))) =
       submitted s @ map (retarget s) (requeue_list (nshead s) @ rq_bios req)"
proof
  show "nvme_failover_req s req =
     (s\<lparr>nshead := (nshead s)
           \<lparr>requeue_list := requeue_list (nshead s) @ rq_bios req,
            requeue_work := (requeue_work (nshead s))\<lparr>work_pending := True\<rparr>\<rparr>,
         trace := trace s @
           [SPIN_LOCK, BLK_STEAL_BIOS (rq_id req), SPIN_UNLOCK,
            BLK_MQ_END_REQUEST (rq_id req) 0,
            NVME_RESET_CTRL (ns_ctrl (namespaces s (rq_ns req))),
            KBLOCKD_SCHEDULE_WORK]\<rparr>,
      req\<lparr>rq_bios := []\<rparr>)"
    by (rule failover_req_eq)
next
  let ?s' = "fst (nvme_failover_req s req)"
  have q: "requeue_list (nshead ?s') = requeue_list (nshead s) @ rq_bios req"
    by (simp add: failover_req_eq)
  have sub: "submitted ?s' = submitted s"
    by (simp add: failover_req_eq submitted_def submit_of_def)
  have rt: "retarget ?s' = retarget s"
    by (rule ext) (simp add: failover_req_eq retarget_def)
  show "submitted (nvme_requeue_work K ?s') =
       submitted s @ map (retarget s) (requeue_list (nshead s) @ rq_bios req)"
    by (simp only: work_submitted q sub rt)
qed

subsection \<open>Tear-down\<close>

lemma gmr_dying:
  assumes "head_disk (nshead s) = Some d" "q_dying (gd_queue d)"
  shows "generic_make_request K s (b\<lparr>bi_disk := Some (gd_addr d)\<rparr>) =
           s\<lparr>trace := trace s @ fail_events K (gd_addr d) b\<rparr>"
  using assms
  by (simp add: generic_make_request_def Let_def emit_def fail_events_def)

lemma loop_dying:
  assumes "head_disk (nshead s) = Some d" "q_dying (gd_queue d)"
  shows "nvme_requeue_loop K s xs =
           s\<lparr>trace := trace s @ concat (map (fail_events K (gd_addr d)) xs)\<rparr>"
  using assms
proof (induction xs arbitrary: s)
  case Nil
  then show ?case by simp
next
  case (Cons b xs)
  let ?s1 = "s\<lparr>trace := trace s @ fail_events K (gd_addr d) b\<rparr>"
  have "nvme_requeue_loop K s (b # xs) = nvme_requeue_loop K ?s1 xs"
    using Cons.prems by (simp add: gmr_dying)
  also have "\<dots> = ?s1\<lparr>trace := trace ?s1 @ concat (map (fail_events K (gd_addr d)) xs)\<rparr>"
    using Cons.prems by (intro Cons.IH) simp_all
  finally show ?case by simp
qed

lemma work_dying:
  assumes "head_disk (nshead s) = Some d" "q_dying (gd_queue d)"
  shows "nvme_requeue_work K s =
           s\<lparr>nshead := (nshead s)\<lparr>requeue_list := []\<rparr>,
              trace := trace s @ [SPIN_LOCK, BIO_LIST_GET, SPIN_UNLOCK]
                @ concat (map (fail_events K (gd_addr d)) (requeue_list (nshead s)))\<rparr>"
proof -
  let ?s3 = "fst (nvme_requeue_swap s)"
  have "head_disk (nshead ?s3) = Some d" using assms by (simp add: swap_eq)
  from loop_dying [OF this assms(2)]
  have "nvme_requeue_loop K ?s3 (requeue_list (nshead s)) =
          ?s3\<lparr>trace := trace ?s3 @
             concat (map (fail_events K (gd_addr d)) (requeue_list (nshead s)))\<rparr>" .
  then show ?thesis by (simp add: nvme_requeue_work_def swap_eq)
qed

text \<open>
  C7: on a head without an aggregate device \<^verbatim>\<open>nvme_mpath_remove_disk\<close> returns at
  once and changes nothing, so calling it again changes nothing either. On a head with
  an aggregate device (and the work item that bring-up initialises) it removes the sysfs
  group, deletes the disk, marks the queue dying, schedules and flushes the requeue
  work, and only then cleans up the queue and puts the disk. The flush is one run of
  the drain: every pending buffer is resubmitted once, and, the queue being dying,
  completed with the I/O error; the pending-requeue list is empty when the queue and
  the disk are released.
\<close>

theorem nvme_mpath_remove_disk_drains:
  "(head_disk (nshead s) = None \<longrightarrow>
      nvme_mpath_remove_disk K s = s
      \<and> nvme_mpath_remove_disk K (nvme_mpath_remove_disk K s) = nvme_mpath_remove_disk K s)
   \<and> (\<forall>d. head_disk (nshead s) = Some d
          \<and> work_func (requeue_work (nshead s)) = Some FN_nvme_requeue_work \<longrightarrow>
        nvme_mpath_remove_disk K s =
          s\<lparr>nshead := (nshead s)
               \<lparr>requeue_list := [],
                requeue_work := (requeue_work (nshead s))\<lparr>work_pending := False\<rparr>,
                head_disk := Some (d\<lparr>gd_queue := (gd_queue d)\<lparr>q_dying := True\<rparr>\<rparr>)\<rparr>,
             trace := trace s @
               [SYSFS_REMOVE_GROUP, DEL_GENDISK (gd_addr d),
                BLK_SET_QUEUE_DYING (q_addr (gd_queue d)),
                KBLOCKD_SCHEDULE_WORK, FLUSH_WORK, SPIN_LOCK, BIO_LIST_GET, SPIN_UNLOCK]
               @ concat (map (fail_events K (gd_addr d)) (requeue_list (nshead s)))
               @ [BLK_CLEANUP_QUEUE (q_addr (gd_queue d)), PUT_DISK (gd_addr d)]\<rparr>)"
proof (intro conjI allI impI)
  assume none: "head_disk (nshead s) = None"
  then show 1: "nvme_mpath_remove_disk K s = s"
    by (simp add: nvme_mpath_remove_disk_def)
  then show "nvme_mpath_remove_disk K (nvme_mpath_remove_disk K s) = nvme_mpath_remove_disk K s"
    by simp
next
  fix d
  assume a: "head_disk (nshead s) = Some d
          \<and> work_func (requeue_work (nshead s)) = Some FN_nvme_requeue_work"
  let ?d' = "d\<lparr>gd_queue := (gd_queue d)\<lparr>q_dying := True\<rparr>\<rparr>"
  let ?s4 = "kblockd_schedule_work (blk_set_queue_dying
               (emit (DEL_GENDISK (gd_addr d)) (emit SYSFS_REMOVE_GROUP s)) d)"
  let ?s4' = "(emit FLUSH_WORK ?s4)\<lparr>nshead := (nshead (emit FLUSH_WORK ?s4))
                \<lparr>requeue_work := (requeue_work (nshead (emit FLUSH_WORK ?s4)))
                   \<lparr>work_pending := False\<rparr>\<rparr>\<rparr>"
  have hd: "head_disk (nshead ?s4') = Some ?d'" "q_dying (gd_queue ?d')"
    by (simp_all add: kblockd_schedule_work_def blk_set_queue_dying_def)
  have "flush_work K ?s4 = nvme_requeue_work K ?s4'"
    using a
    by (simp add: flush_work_def Let_def kblockd_schedule_work_def blk_set_queue_dying_def)
  then have fl: "flush_work K ?s4 =
      ?s4'\<lparr>nshead := (nshead ?s4')\<lparr>requeue_list := []\<rparr>,
           trace := trace ?s4' @ [SPIN_LOCK, BIO_LIST_GET, SPIN_UNLOCK]
             @ concat (map (fail_events K (gd_addr ?d')) (requeue_list (nshead ?s4')))\<rparr>"
    by (simp only: work_dying [OF hd])
  have "nvme_mpath_remove_disk K s =
          emit (PUT_DISK (gd_addr d))
            (emit (BLK_CLEANUP_QUEUE (q_addr (gd_queue d))) (flush_work K ?s4))"
    using a by (simp add: nvme_mpath_remove_disk_def Let_def)
  then show "nvme_mpath_remove_disk K s =
          s\<lparr>nshead := (nshead s)
               \<lparr>requeue_list := [],
                requeue_work := (requeue_work (nshead s))\<lparr>work_pending := False\<rparr>,
                head_disk := Some (d\<lparr>gd_queue := (gd_queue d)\<lparr>q_dying := True\<rparr>\<rparr>)\<rparr>,
             trace := trace s @
               [SYSFS_REMOVE_GROUP, DEL_GENDISK (gd_addr d),
                BLK_SET_QUEUE_DYING (q_addr (gd_queue d)),
                KBLOCKD_SCHEDULE_WORK, FLUSH_WORK, SPIN_LOCK, BIO_LIST_GET, SPIN_UNLOCK]
               @ concat (map (fail_events K (gd_addr d)) (requeue_list (nshead s)))
               @ [BLK_CLEANUP_QUEUE (q_addr (gd_queue d)), PUT_DISK (gd_addr d)]\<rparr>"
    by (simp only: fl)
       (simp add: emit_def kblockd_schedule_work_def blk_set_queue_dying_def)
qed

text \<open>
  Two pending buffers on a head with an aggregate device and no live path: after
  tear-down nothing is pending and both buffers are completed with status 10. A head
  without aggregate device is left as it is.
\<close>

theorem nvme_mpath_remove_disk_drains_witness:
  "requeue_list (nshead (nvme_mpath_remove_disk linux_h
      (demo_sys [] [1, 2] None [demo_bio 1, demo_bio 2] (Some demo_disk)))) = []
   \<and> completed (nvme_mpath_remove_disk linux_h
      (demo_sys [] [1, 2] None [demo_bio 1, demo_bio 2] (Some demo_disk)))
     = [\<lparr>bi_id = 1, bi_disk = Some 9, bi_opf = 0, bi_status = 10\<rparr>,
        \<lparr>bi_id = 2, bi_disk = Some 9, bi_opf = 0, bi_status = 10\<rparr>]
   \<and> nvme_mpath_remove_disk linux_h (demo_sys [] [1, 2] None [] None)
     = demo_sys [] [1, 2] None [] None"
proof -
  let ?s = "demo_sys [] [1, 2] None [demo_bio 1, demo_bio 2] (Some demo_disk)"
  have pre: "head_disk (nshead ?s) = Some demo_disk
      \<and> work_func (requeue_work (nshead ?s)) = Some FN_nvme_requeue_work"
    by simp
  note full = nvme_mpath_remove_disk_drains [of ?s linux_h, THEN conjunct2, rule_format, OF pre]
  note none = nvme_mpath_remove_disk_drains
      [of "demo_sys [] [1, 2] None [] None" linux_h, THEN conjunct1]
  have 1: "requeue_list (nshead (nvme_mpath_remove_disk linux_h ?s)) = []"
    unfolding full by simp
  have 2: "completed (nvme_mpath_remove_disk linux_h ?s)
     = [\<lparr>bi_id = 1, bi_disk = Some 9, bi_opf = 0, bi_status = 10\<rparr>,
        \<lparr>bi_id = 2, bi_disk = Some 9, bi_opf = 0, bi_status = 10\<rparr>]"
    unfolding full
    by (simp add: completed_def endio_of_def fail_events_def demo_bio_def
          demo_disk_fields linux_h_flags)
  have 3: "nvme_mpath_remove_disk linux_h (demo_sys [] [1, 2] None [] None)
     = demo_sys [] [1, 2] None [] None"
    using none by simp
  from 1 2 3 show ?thesis by (intro conjI)
qed

subsection \<open>Bring-up\<close>

lemma cmic_bit1: "(x AND 2 = 0) = (\<not> bit x 1)" for x :: "8 word"
  using and_exp_eq_0_iff_not_bit [of x 1] by simp

lemma alloc_not_needed:
  "\<not> wants_disk s c \<Longrightarrow> nvme_mpath_alloc_disk K s c q_new d_new = (init_head s, 0)"
  by (auto simp: nvme_mpath_alloc_disk_def wants_disk_def cmic_bit1 init_head_def Let_def emit_def)

lemma alloc_no_queue:
  "wants_disk s c \<Longrightarrow>
   nvme_mpath_alloc_disk K s c None d_new =
     (emit (BLK_ALLOC_QUEUE_NODE None) (init_head s), - ENOMEM K)"
  by (simp add: nvme_mpath_alloc_disk_def wants_disk_def cmic_bit1 init_head_def Let_def emit_def)

lemma alloc_no_disk:
  "wants_disk s c \<Longrightarrow>
   nvme_mpath_alloc_disk K s c (Some a) None =
     ((init_head s)\<lparr>nshead := (nshead (init_head s))\<lparr>head_disk := None\<rparr>,
        trace := trace s @ [SPIN_LOCK_INIT, BLK_ALLOC_QUEUE_NODE (Some a), ALLOC_DISK None,
                           BLK_CLEANUP_QUEUE a]\<rparr>,
      - ENOMEM K)"
  by (simp add: nvme_mpath_alloc_disk_def wants_disk_def cmic_bit1 init_head_def Let_def emit_def
        setup_queue_def fresh_queue_def)

lemma alloc_ok:
  "wants_disk s c \<Longrightarrow>
   nvme_mpath_alloc_disk K s c (Some a) (Some da) =
     ((init_head s)\<lparr>nshead := (nshead (init_head s))\<lparr>head_disk := Some (new_disk K s c a da)\<rparr>,
        trace := trace s @ [SPIN_LOCK_INIT, BLK_ALLOC_QUEUE_NODE (Some a), ALLOC_DISK (Some da)]\<rparr>,
      0)"
  by (simp add: nvme_mpath_alloc_disk_def wants_disk_def cmic_bit1 init_head_def Let_def emit_def
        new_disk_def)

lemma alloc_always_inits:
  "requeue_list (nshead (fst (nvme_mpath_alloc_disk K s c q_new d_new))) = []
   \<and> requeue_work (nshead (fst (nvme_mpath_alloc_disk K s c q_new d_new))) =
       \<lparr>work_func = Some FN_nvme_requeue_work, work_pending = False\<rparr>
   \<and> take (Suc (length (trace s))) (trace (fst (nvme_mpath_alloc_disk K s c q_new d_new))) =
       trace s @ [SPIN_LOCK_INIT]"
proof (cases "wants_disk s c")
  case False
  then show ?thesis by (simp add: alloc_not_needed init_head_def)
next
  case True
  then show ?thesis
    by (cases q_new; cases d_new)
       (simp_all add: alloc_no_queue alloc_no_disk alloc_ok init_head_def emit_def)
qed

text \<open>
  C8: \<^verbatim>\<open>nvme_mpath_alloc_disk\<close> always empties the pending-requeue list, initialises
  the lock (its first call) and initialises the work item with \<^verbatim>\<open>nvme_requeue_work\<close>.
  When bit 1 of the subsystem's \<^verbatim>\<open>cmic\<close> is clear or the module parameter is off, it
  does nothing more and returns 0: no allocation is attempted and \<^verbatim>\<open>head->disk\<close> is
  not written. Otherwise it allocates a queue and a disk. When the queue cannot be
  allocated it returns \<^verbatim>\<open>-ENOMEM\<close> and \<^verbatim>\<open>head->disk\<close> is not written; when the disk
  cannot be allocated it cleans up the queue, leaves \<^verbatim>\<open>head->disk\<close> null and returns
  \<^verbatim>\<open>-ENOMEM\<close>; when both succeed it returns 0 with the aggregate device in place, its
  queue carrying the routing and the polling entry points. So on a new head, whose
  \<^verbatim>\<open>disk\<close> is null, every outcome but the last leaves the head without an aggregate
  device, returning 0 when none was wanted and \<^verbatim>\<open>-ENOMEM\<close> when an allocation failed.
\<close>

theorem nvme_mpath_alloc_disk_outcomes:
  "requeue_list (nshead (fst (nvme_mpath_alloc_disk K s c q_new d_new))) = []
   \<and> requeue_work (nshead (fst (nvme_mpath_alloc_disk K s c q_new d_new))) =
       \<lparr>work_func = Some FN_nvme_requeue_work, work_pending = False\<rparr>
   \<and> take (Suc (length (trace s))) (trace (fst (nvme_mpath_alloc_disk K s c q_new d_new))) =
       trace s @ [SPIN_LOCK_INIT]
   \<and> (\<not> wants_disk s c \<longrightarrow>
        nvme_mpath_alloc_disk K s c q_new d_new = (init_head s, 0))
   \<and> (wants_disk s c \<and> q_new = None \<longrightarrow>
        nvme_mpath_alloc_disk K s c q_new d_new =
          (emit (BLK_ALLOC_QUEUE_NODE None) (init_head s), - ENOMEM K))
   \<and> (\<forall>a. wants_disk s c \<and> q_new = Some a \<and> d_new = None \<longrightarrow>
        nvme_mpath_alloc_disk K s c q_new d_new =
          ((init_head s)\<lparr>nshead := (nshead (init_head s))\<lparr>head_disk := None\<rparr>,
             trace := trace s @ [SPIN_LOCK_INIT, BLK_ALLOC_QUEUE_NODE (Some a), ALLOC_DISK None,
                                BLK_CLEANUP_QUEUE a]\<rparr>,
           - ENOMEM K))
   \<and> (\<forall>a da. wants_disk s c \<and> q_new = Some a \<and> d_new = Some da \<longrightarrow>
        nvme_mpath_alloc_disk K s c q_new d_new =
          ((init_head s)\<lparr>nshead := (nshead (init_head s))
               \<lparr>head_disk := Some (new_disk K s c a da)\<rparr>,
             trace := trace s @ [SPIN_LOCK_INIT, BLK_ALLOC_QUEUE_NODE (Some a),
                                ALLOC_DISK (Some da)]\<rparr>,
           0)
        \<and> make_request_fn (gd_queue (new_disk K s c a da)) = Some FN_nvme_ns_head_make_request
        \<and> poll_fn (gd_queue (new_disk K s c a da)) = Some FN_nvme_ns_head_poll)
   \<and> (head_disk (nshead s) = None \<and> \<not> (wants_disk s c \<and> q_new \<noteq> None \<and> d_new \<noteq> None) \<longrightarrow>
        head_disk (nshead (fst (nvme_mpath_alloc_disk K s c q_new d_new))) = None
        \<and> snd (nvme_mpath_alloc_disk K s c q_new d_new) =
            (if wants_disk s c then - ENOMEM K else 0))"
proof -
  have fresh: "head_disk (nshead (fst (nvme_mpath_alloc_disk K s c q_new d_new))) = None
        \<and> snd (nvme_mpath_alloc_disk K s c q_new d_new) =
            (if wants_disk s c then - ENOMEM K else 0)"
    if "head_disk (nshead s) = None" "\<not> (wants_disk s c \<and> q_new \<noteq> None \<and> d_new \<noteq> None)"
  proof (cases "wants_disk s c")
    case False
    with that show ?thesis by (simp add: alloc_not_needed init_head_def)
  next
    case True
    with that show ?thesis
      by (cases q_new; cases d_new)
         (simp_all add: alloc_no_queue alloc_no_disk init_head_def emit_def)
  qed
  have fns: "make_request_fn (gd_queue (new_disk K s c a da)) = Some FN_nvme_ns_head_make_request
        \<and> poll_fn (gd_queue (new_disk K s c a da)) = Some FN_nvme_ns_head_poll" for a da
    by (simp add: new_disk_def setup_queue_def fresh_queue_def Let_def)
  show ?thesis
    using alloc_always_inits [of K s c q_new d_new] fresh fns
    by (simp add: alloc_not_needed alloc_no_queue alloc_no_disk alloc_ok)
qed

text \<open>
  A new head under a multi-controller subsystem: with the module parameter off the
  result is 0 and the initialised head; with the queue or the disk allocation failing
  the result is -12 and no aggregate device; with both succeeding the result is 0 and
  the head's disk is the new one.
\<close>

theorem nvme_mpath_alloc_disk_outcomes_witness:
  "nvme_mpath_alloc_disk linux_h ((demo_sys [1] [1] None [demo_bio 1] None)\<lparr>multipath := False\<rparr>)
       1 (Some 8) (Some 9)
     = (init_head ((demo_sys [1] [1] None [demo_bio 1] None)\<lparr>multipath := False\<rparr>), 0)
   \<and> snd (nvme_mpath_alloc_disk linux_h (demo_sys [1] [1] None [demo_bio 1] None) 1
        None (Some 9)) = - 12
   \<and> head_disk (nshead (fst (nvme_mpath_alloc_disk linux_h
        (demo_sys [1] [1] None [demo_bio 1] None) 1 (Some 8) None))) = None
   \<and> snd (nvme_mpath_alloc_disk linux_h (demo_sys [1] [1] None [demo_bio 1] None) 1
        (Some 8) None) = - 12
   \<and> snd (nvme_mpath_alloc_disk linux_h (demo_sys [1] [1] None [demo_bio 1] None) 1
        (Some 8) (Some 9)) = 0
   \<and> map_option gd_addr (head_disk (nshead (fst (nvme_mpath_alloc_disk linux_h
        (demo_sys [1] [1] None [demo_bio 1] None) 1 (Some 8) (Some 9))))) = Some 9"
proof -
  let ?s = "demo_sys [1] [1] None [demo_bio 1] None"
  have w: "wants_disk ?s 1" "\<not> wants_disk (?s\<lparr>multipath := False\<rparr>) 1"
    by (simp_all add: wants_disk_def)
  show ?thesis
    using w
      nvme_mpath_alloc_disk_outcomes [of linux_h "?s\<lparr>multipath := False\<rparr>" 1 "Some 8" "Some 9"]
      nvme_mpath_alloc_disk_outcomes [of linux_h ?s 1 None "Some 9"]
      nvme_mpath_alloc_disk_outcomes [of linux_h ?s 1 "Some 8" None]
      nvme_mpath_alloc_disk_outcomes [of linux_h ?s 1 "Some 8" "Some 9"]
    by (simp add: linux_h_flags new_disk_def)
qed

end
